theory Spec2Isabelle
  imports Complex_Main "HOL-Library.Word"
begin

section \<open>Common data\<close>

text \<open>
  Database identifiers (\<^verbatim>\<open>_id\<close>, \<^verbatim>\<open>req.user.userId\<close>, \<^verbatim>\<open>req.params.tripId\<close>) are
  ObjectIds; the controllers compare them through \<^verbatim>\<open>toString()\<close>, which is injective, so an
  identifier is modelled by a number. Values made by \<^verbatim>\<open>uuidv4()\<close> and by \<^verbatim>\<open>new Date()\<close>
  come from the environment and are arguments of the operations; a date is its number of
  milliseconds. A JavaScript string whose length or whitespace matters is its list of UTF-16
  code units; a string that is only compared (a message type, a status) is a \<^typ>\<open>string\<close>.
  A body field is \<^term>\<open>None\<close> when it is absent; body fields that hold a JSON value of
  another type than the expected one and malformed identifiers are outside the model.
\<close>

type_synonym oid = nat
type_synonym date = nat
type_synonym jsstring = "16 word list"

datatype 'a response = Success nat 'a | Failure nat string

fun status_code :: "'a response \<Rightarrow> nat" where
  "status_code (Success c _) = c"
| "status_code (Failure c _) = c"

text \<open>\<^verbatim>\<open>String.prototype.trim\<close>: removes WhiteSpace and LineTerminator code units at both ends.\<close>

definition is_ws :: "16 word \<Rightarrow> bool" where
  "is_ws c = (c \<in> set [0x09, 0x0A, 0x0B, 0x0C, 0x0D, 0x20, 0xA0, 0x1680, 0x2028, 0x2029,
                         0x202F, 0x205F, 0x3000, 0xFEFF]
              \<or> (0x2000 \<le> c \<and> c \<le> 0x200A))"

definition trim :: "jsstring \<Rightarrow> jsstring" where
  "trim s = rev (dropWhile is_ws (rev (dropWhile is_ws s)))"

text \<open>The guard \<^verbatim>\<open>!content || content.trim().length === 0\<close>.\<close>

fun blank :: "jsstring option \<Rightarrow> bool" where
  "blank None = True"
| "blank (Some s) = (s = [] \<or> length (trim s) = 0)"

definition utf16 :: "string \<Rightarrow> jsstring" where
  "utf16 s = map of_char s"

text \<open>\<^verbatim>\<open>Array.prototype.slice(start, end)\<close> on integer arguments.\<close>

definition js_slice :: "'a list \<Rightarrow> int \<Rightarrow> int \<Rightarrow> 'a list" where
  "js_slice xs start fin =
     (let len = int (length xs);
          k = (if start < 0 then max (len + start) 0 else min start len);
          e = (if fin < 0 then max (len + fin) 0 else min fin len)
      in take (nat (e - k)) (drop (nat k) xs))"

text \<open>A query parameter after \<^verbatim>\<open>parseInt\<close>, with the default of the destructuring
  (\<^verbatim>\<open>const { page = 1, limit = 50 } = req.query\<close>) for an absent one. A parameter that
  \<^verbatim>\<open>parseInt\<close> does not read as an integer is outside the model.\<close>

definition query_int :: "int \<Rightarrow> int option \<Rightarrow> int" where
  "query_int dflt q = (case q of None \<Rightarrow> dflt | Some v \<Rightarrow> v)"

text \<open>An update of the first document that matches, as \<^verbatim>\<open>findOneAndUpdate\<close> and
  \<^verbatim>\<open>save\<close> of a loaded document do.\<close>

fun update_first :: "('a \<Rightarrow> bool) \<Rightarrow> ('a \<Rightarrow> 'a) \<Rightarrow> 'a list \<Rightarrow> 'a list" where
  "update_first P f [] = []"
| "update_first P f (x # xs) = (if P x then f x # xs else x # update_first P f xs)"

section \<open>Trips and discussions\<close>

text \<open>
  Modelled from the spec: the Trip schema (\<^verbatim>\<open>models/Trip.js\<close>) is not among the sources; the
  record holds the fields the discussion controller reads and writes, as
  \<^verbatim>\<open>TripController.createTrip\<close> fills them.
\<close>

record participant =
  user :: oid
  status :: string

record collaborative_features =
  allowDiscussions :: bool
  allowItineraryEditing :: bool
  lastActivity :: date

record trip =
  trip_oid :: oid
  title :: string
  organizer :: oid
  participants :: "participant list"
  collaborativeFeatures :: collaborative_features

text \<open>The Discussion schema (\<^verbatim>\<open>models/Discussion.js\<close>).\<close>

datatype metadata =
  ItineraryChange string int string
| UserAction string string

record discussion_message =
  messageId :: string
  author :: oid
  content :: jsstring
  messageType :: string
  metadata :: "metadata option"
  timestamp :: date
  editedAt :: "date option"
  isEdited :: bool

text \<open>The controller addresses the presence of a user by the user's identifier
  (\<^verbatim>\<open>activeUsers.<userId>.lastSeen\<close>), so the active users are a map from identifiers.\<close>

record presence =
  lastSeen :: "date option"
  isTyping :: "bool option"

record discussion =
  trip :: oid
  messages :: "discussion_message list"
  activeUsers :: "oid \<rightharpoonup> presence"

text \<open>The schema's validators of a message: \<^verbatim>\<open>required\<close> and
  \<^verbatim>\<open>maxlength: [1000, 'Message cannot exceed 1000 characters']\<close> on the content.\<close>

definition validate_message :: "discussion_message \<Rightarrow> bool" where
  "validate_message m = (content m \<noteq> [] \<and> length (content m) \<le> 1000)"

section \<open>Users, chats, chat messages and ratings\<close>

text \<open>
  Modelled from the spec: the User, Chat and Message schemas (\<^verbatim>\<open>models/User.js\<close>,
  \<^verbatim>\<open>models/Chat.js\<close>, \<^verbatim>\<open>models/Message.js\<close>) are not among the sources; the records
  hold the fields the controllers read and write. In a chat message \<open>msg_content\<close>,
  \<open>msg_messageType\<close> and \<open>msg_trip\<close> are the fields \<^verbatim>\<open>content\<close>, \<^verbatim>\<open>messageType\<close> and
  \<^verbatim>\<open>trip\<close>, and in a member of a chat \<open>member_user\<close> and \<open>member_role\<close> are
  \<^verbatim>\<open>user\<close> and \<^verbatim>\<open>role\<close>. A new chat has no last message and no last activity; a new
  message is unread, not deleted and not answered.
\<close>

record user_doc =
  user_oid :: oid
  name :: string
  role :: string
  guideInfo_rating_average :: rat
  guideInfo_rating_count :: nat

record member =
  member_user :: oid
  member_role :: string

record chat_doc =
  chat_oid :: oid
  chat_id :: string
  chatType :: string
  chat_participants :: "member list"
  lastMessage :: "oid option"
  chat_lastActivity :: "date option"

record message_doc =
  message_oid :: oid
  message_id :: string
  chat :: "oid option"
  msg_trip :: "oid option"
  sender :: oid
  msg_content :: jsstring
  msg_messageType :: string
  readBy :: "oid list"
  isDeleted :: bool
  deletedAt :: "date option"
  answer :: "jsstring option"
  answeredBy :: "oid option"
  answeredAt :: "date option"
  isAnswered :: bool
  createdAt :: date

text \<open>
  The Rating schema (\<^verbatim>\<open>models/Rating.js\<close>); \<open>rating_createdAt\<close> is the \<^verbatim>\<open>createdAt\<close>
  of its \<^verbatim>\<open>timestamps\<close>. The \<^verbatim>\<open>updatedAt\<close> that the store keeps beside it is not
  modelled. A score is a JSON number, here a rational.
\<close>

record rating_doc =
  rating_oid :: oid
  rating_id :: string
  reviewer :: oid
  targetType :: string
  targetId :: oid
  rating :: rat
  review :: "jsstring option"
  isVerified :: bool
  helpfulVotes :: int
  reportCount :: int
  isHidden :: bool
  rating_createdAt :: date

section \<open>The database\<close>

datatype socket_event =
  TripNewMessage oid discussion_message

record database =
  users :: "user_doc list"
  trips :: "trip list"
  discussions :: "discussion list"
  chats :: "chat_doc list"
  chat_messages :: "message_doc list"
  ratings :: "rating_doc list"
  io :: bool
  emitted :: "socket_event list"

section \<open>The discussion controller\<close>

definition findById :: "trip list \<Rightarrow> oid \<Rightarrow> trip option" where
  "findById ts tripId = find (\<lambda>t. trip_oid t = tripId) ts"

definition isOrganizer :: "trip \<Rightarrow> oid \<Rightarrow> bool" where
  "isOrganizer t userId = (organizer t = userId)"

definition isParticipant :: "trip \<Rightarrow> oid \<Rightarrow> bool" where
  "isParticipant t userId =
     list_ex (\<lambda>p. user p = userId \<and> status p = ''confirmed'') (participants t)"

text \<open>
  \<^verbatim>\<open>Discussion.findOneAndUpdate({ trip }, { $push: { messages }, $set: { activeUsers... } }, options)\<close>.
  The schema's validators run on an update only under the option \<^verbatim>\<open>runValidators\<close>; the result
  is the document after the update under \<^verbatim>\<open>new\<close>, and a missing document is created under
  \<^verbatim>\<open>upsert\<close>.
\<close>

record update_options =
  opt_new :: bool
  opt_upsert :: bool
  opt_runValidators :: bool

datatype store_error = ValidationError string

definition set_presence :: "oid \<Rightarrow> date \<Rightarrow> bool \<Rightarrow> (oid \<rightharpoonup> presence) \<Rightarrow> (oid \<rightharpoonup> presence)" where
  "set_presence userId seen typing au =
     au(userId \<mapsto> \<lparr>lastSeen = Some seen, isTyping = Some typing\<rparr>)"

definition apply_update :: "discussion_message \<Rightarrow> oid \<Rightarrow> date \<Rightarrow> discussion \<Rightarrow> discussion" where
  "apply_update m userId seen d =
     d\<lparr>messages := messages d @ [m],
       activeUsers := set_presence userId seen False (activeUsers d)\<rparr>"

definition findOneAndUpdate ::
  "update_options \<Rightarrow> discussion list \<Rightarrow> oid \<Rightarrow> discussion_message \<Rightarrow> oid \<Rightarrow> date
     \<Rightarrow> store_error + (discussion option \<times> discussion list)" where
  "findOneAndUpdate opts ds tripId m userId seen =
     (if opt_runValidators opts \<and> \<not> validate_message m
      then Inl (ValidationError ''Message cannot exceed 1000 characters'')
      else case find (\<lambda>d. trip d = tripId) ds of
             Some d \<Rightarrow>
               Inr (Some (if opt_new opts then apply_update m userId seen d else d),
                    update_first (\<lambda>d. trip d = tripId) (apply_update m userId seen) ds)
           | None \<Rightarrow>
               if opt_upsert opts
               then let d = apply_update m userId seen
                              \<lparr>trip = tripId, messages = [], activeUsers = Map.empty\<rparr>
                    in Inr (if opt_new opts then Some d else None, ds @ [d])
               else Inr (None, ds))"

definition touch_trip :: "oid \<Rightarrow> date \<Rightarrow> trip list \<Rightarrow> trip list" where
  "touch_trip tripId t ts =
     update_first (\<lambda>x. trip_oid x = tripId)
       (\<lambda>x. x\<lparr>collaborativeFeatures := (collaborativeFeatures x)\<lparr>lastActivity := t\<rparr>\<rparr>) ts"

definition emit :: "socket_event \<Rightarrow> database \<Rightarrow> database" where
  "emit e db = (if io db then db\<lparr>emitted := emitted db @ [e]\<rparr> else db)"

text \<open>
  \<^verbatim>\<open>DiscussionController.sendMessage\<close>. The three dates are the three \<^verbatim>\<open>new Date()\<close>
  of the body, in order. An error thrown by the store, or by reading the messages of a
  missing result, reaches the \<^verbatim>\<open>catch\<close>, which answers 500.
\<close>

definition sendMessage ::
  "database \<Rightarrow> oid \<Rightarrow> oid \<Rightarrow> jsstring option \<Rightarrow> string option \<Rightarrow> string
     \<Rightarrow> date \<Rightarrow> date \<Rightarrow> date \<Rightarrow> discussion_message response \<times> database" where
  "sendMessage db tripId userId body_content body_messageType uuid t_msg t_seen t_act =
     (if blank body_content then (Failure 400 ''Message content is required'', db)
      else case findById (trips db) tripId of
        None \<Rightarrow> (Failure 404 ''Trip not found'', db)
      | Some t \<Rightarrow>
          if \<not> allowDiscussions (collaborativeFeatures t)
          then (Failure 403 ''Discussions are disabled for this trip'', db)
          else if \<not> isOrganizer t userId \<and> \<not> isParticipant t userId
          then (Failure 403 ''Only trip organizer or participants can send messages'', db)
          else
            let messageData =
                  \<lparr>messageId = uuid, author = userId, content = trim (the body_content),
                   messageType = (case body_messageType of None \<Rightarrow> ''text'' | Some ty \<Rightarrow> ty),
                   metadata = None, timestamp = t_msg, editedAt = None, isEdited = False\<rparr>
            in (case findOneAndUpdate
                        \<lparr>opt_new = True, opt_upsert = True, opt_runValidators = False\<rparr>
                        (discussions db) tripId messageData userId t_seen of
                  Inl err \<Rightarrow> (Failure 500 ''Server error while sending message'', db)
                | Inr (None, ds) \<Rightarrow>
                    (Failure 500 ''Server error while sending message'', db\<lparr>discussions := ds\<rparr>)
                | Inr (Some d, ds) \<Rightarrow>
                    let db1 = db\<lparr>discussions := ds\<rparr>;
                        db2 = db1\<lparr>trips := touch_trip tripId t_act (trips db1)\<rparr>;
                        newMessage = last (messages d)
                    in (Success 201 newMessage, emit (TripNewMessage tripId newMessage) db2)))"

text \<open>
  \<^verbatim>\<open>DiscussionController.getDiscussion\<close>. \<^verbatim>\<open>page\<close> and \<^verbatim>\<open>limit\<close> are the query's
  values after \<^verbatim>\<open>parseInt\<close>, \<^term>\<open>None\<close> for an absent parameter (defaults 1 and 50).
  \<^verbatim>\<open>Array.prototype.sort\<close> is stable, as \<^const>\<open>sort_key\<close> is. The answer holds the
  discussion with the page of messages in place of its messages, and the trip's summary.
\<close>

definition getDiscussion ::
  "database \<Rightarrow> oid \<Rightarrow> oid \<Rightarrow> int option \<Rightarrow> int option \<Rightarrow> string \<Rightarrow> date
     \<Rightarrow> (discussion \<times> oid \<times> string \<times> collaborative_features) response \<times> database" where
  "getDiscussion db tripId userId query_page query_limit uuid now =
     (let page = query_int 1 query_page;
          limit = query_int 50 query_limit
      in case findById (trips db) tripId of
        None \<Rightarrow> (Failure 404 ''Trip not found'', db)
      | Some t \<Rightarrow>
          if \<not> isOrganizer t userId \<and> \<not> isParticipant t userId
          then (Failure 403 ''Only trip organizer or participants can access discussions'', db)
          else
            let (d, db') =
                  (case find (\<lambda>d. trip d = tripId) (discussions db) of
                     Some d \<Rightarrow> (d, db)
                   | None \<Rightarrow>
                       let d = \<lparr>trip = tripId,
                                messages = [\<lparr>messageId = uuid, author = userId,
                                             content = utf16 ''Discussion started for this trip!'',
                                             messageType = ''system'', metadata = None,
                                             timestamp = now, editedAt = None, isEdited = False\<rparr>],
                                activeUsers = Map.empty\<rparr>
                       in (d, db\<lparr>discussions := discussions db @ [d]\<rparr>));
                skip = (page - 1) * limit;
                paginatedMessages = js_slice (sort_key timestamp (messages d)) skip (skip + limit)
            in (Success 200 (d\<lparr>messages := paginatedMessages\<rparr>,
                             trip_oid t, title t, collaborativeFeatures t), db'))"

text \<open>The messages of the answer of \<^const>\<open>getDiscussion\<close> (none in a failure).\<close>

definition returned_messages :: "(discussion \<times> oid \<times> string \<times> collaborative_features) response \<Rightarrow> discussion_message list" where
  "returned_messages r = (case r of Success c (d, x) \<Rightarrow> messages d | Failure c msg \<Rightarrow> [])"

section \<open>The chat controller\<close>

text \<open>
  The store's \<^verbatim>\<open>skip\<close> and \<^verbatim>\<open>limit\<close> on a sorted result: a negative skip is an error of
  the query, limit 0 is no limit, and a negative limit counts as its absolute value.
\<close>

definition query_page :: "'a list \<Rightarrow> int \<Rightarrow> int \<Rightarrow> 'a list option" where
  "query_page xs skip limit =
     (if skip < 0 then None
      else Some (if limit = 0 then drop (nat skip) xs
                 else take (nat \<bar>limit\<bar>) (drop (nat skip) xs)))"

text \<open>\<^verbatim>\<open>Math.ceil(total / limit)\<close>; for limit 0 the quotient is not a number of pages.\<close>

definition page_count :: "nat \<Rightarrow> int \<Rightarrow> int option" where
  "page_count n limit = (if limit = 0 then None else Some (- ((- int n) div limit)))"

text \<open>The \<^verbatim>\<open>pagination\<close> of an answer: \<^verbatim>\<open>current\<close>, \<^verbatim>\<open>total\<close>, \<^verbatim>\<open>count\<close> and
  \<^verbatim>\<open>totalMessages\<close> or \<^verbatim>\<open>totalRatings\<close>.\<close>

record pagination =
  current :: int
  total_pages :: "int option"
  count :: nat
  totalItems :: nat

text \<open>The filter \<^verbatim>\<open>'participants.user': { $all: [userId, participantId] }\<close> on direct chats.\<close>

definition direct_chat_of :: "oid \<Rightarrow> oid \<Rightarrow> chat_doc \<Rightarrow> bool" where
  "direct_chat_of userId participantId c =
     (chatType c = ''direct''
      \<and> list_all (\<lambda>u. list_ex (\<lambda>p. member_user p = u) (chat_participants c))
           [userId, participantId])"

text \<open>
  \<^verbatim>\<open>ChatController.createDirectChat\<close>. The body's \<^verbatim>\<open>participantId\<close> is \<^term>\<open>None\<close> when it
  is absent or empty. \<open>new_oid\<close> is the \<^verbatim>\<open>_id\<close> the store gives a new chat.
\<close>

definition createDirectChat ::
  "database \<Rightarrow> oid \<Rightarrow> oid option \<Rightarrow> string \<Rightarrow> oid \<Rightarrow> chat_doc response \<times> database" where
  "createDirectChat db userId body_participantId uuid new_oid =
     (case body_participantId of
        None \<Rightarrow> (Failure 400 ''Participant ID is required'', db)
      | Some participantId \<Rightarrow>
          (case find (\<lambda>u. user_oid u = participantId) (users db) of
             None \<Rightarrow> (Failure 404 ''User not found'', db)
           | Some participant \<Rightarrow>
               (case find (direct_chat_of userId participantId) (chats db) of
                  Some c \<Rightarrow> (Success 200 c, db)
                | None \<Rightarrow>
                    let c = \<lparr>chat_oid = new_oid, chat_id = uuid, chatType = ''direct'',
                             chat_participants =
                               [\<lparr>member_user = userId, member_role = ''member''\<rparr>,
                                \<lparr>member_user = participantId, member_role = ''member''\<rparr>],
                             lastMessage = None, chat_lastActivity = None\<rparr>
                    in (Success 201 c, db\<lparr>chats := chats db @ [c]\<rparr>))))"

text \<open>
  \<^verbatim>\<open>ChatController.getChatMessages\<close>. The messages of the chat are sorted by
  \<^verbatim>\<open>createdAt\<close> descending (equal dates in stored order), cut by skip and limit, and
  reversed.
\<close>

definition newest_first :: "message_doc list \<Rightarrow> message_doc list" where
  "newest_first ms = sort_key (\<lambda>m. - int (createdAt m)) ms"

definition getChatMessages ::
  "database \<Rightarrow> oid \<Rightarrow> oid \<Rightarrow> int option \<Rightarrow> int option
     \<Rightarrow> (message_doc list \<times> pagination) response \<times> database" where
  "getChatMessages db chatId userId query_page_no query_limit =
     (let page = query_int 1 query_page_no;
          limit = query_int 50 query_limit
      in case find (\<lambda>c. chat_oid c = chatId) (chats db) of
        None \<Rightarrow> (Failure 404 ''Chat not found'', db)
      | Some c \<Rightarrow>
          if \<not> list_ex (\<lambda>p. member_user p = userId) (chat_participants c)
          then (Failure 403 ''Access denied'', db)
          else
            let skip = (page - 1) * limit;
                found = filter (\<lambda>m. chat m = Some chatId) (chat_messages db)
            in (case query_page (newest_first found) skip limit of
                  None \<Rightarrow> (Failure 500 ''Server error while fetching messages'', db)
                | Some ms \<Rightarrow>
                    (Success 200 (rev ms,
                       \<lparr>current = page, total_pages = page_count (length found) limit,
                        count = length ms, totalItems = length found\<rparr>), db)))"

text \<open>
  The page as the specification words it: the chat's messages newest first, the slice of
  size limit at offset (page - 1) * limit, reversed.
\<close>

definition spec_chat_page :: "database \<Rightarrow> oid \<Rightarrow> int \<Rightarrow> int \<Rightarrow> message_doc list" where
  "spec_chat_page db chatId page limit =
     rev (take (nat limit) (drop (nat ((page - 1) * limit))
            (newest_first (filter (\<lambda>m. chat m = Some chatId) (chat_messages db)))))"

text \<open>The messages of the answer of \<^const>\<open>getChatMessages\<close> (none in a failure).\<close>

definition returned_chat_messages ::
  "(message_doc list \<times> pagination) response \<Rightarrow> message_doc list" where
  "returned_chat_messages r = (case r of Success c (ms, pg) \<Rightarrow> ms | Failure c msg \<Rightarrow> [])"

text \<open>\<^verbatim>\<open>ChatController.markAsRead\<close>: one \<^verbatim>\<open>updateMany\<close> with \<^verbatim>\<open>$addToSet\<close>.\<close>

definition addToSet :: "'a \<Rightarrow> 'a list \<Rightarrow> 'a list" where
  "addToSet x xs = (if x \<in> set xs then xs else xs @ [x])"

definition markAsRead :: "database \<Rightarrow> oid \<Rightarrow> oid \<Rightarrow> unit response \<times> database" where
  "markAsRead db chatId userId =
     (Success 200 (),
      db\<lparr>chat_messages :=
           map (\<lambda>m. if chat m = Some chatId \<and> sender m \<noteq> userId \<and> userId \<notin> set (readBy m)
                     then m\<lparr>readBy := addToSet userId (readBy m)\<rparr> else m)
               (chat_messages db)\<rparr>)"

text \<open>\<^verbatim>\<open>ChatController.deleteMessage\<close>; \<^verbatim>\<open>save\<close> writes the loaded document back.\<close>

definition deleteMessage :: "database \<Rightarrow> oid \<Rightarrow> oid \<Rightarrow> date \<Rightarrow> unit response \<times> database" where
  "deleteMessage db param_messageId userId now =
     (case find (\<lambda>m. message_oid m = param_messageId) (chat_messages db) of
        None \<Rightarrow> (Failure 404 ''Message not found'', db)
      | Some m \<Rightarrow>
          if sender m \<noteq> userId
          then (Failure 403 ''Only the sender can delete this message'', db)
          else (Success 200 (),
                db\<lparr>chat_messages :=
                     update_first (\<lambda>x. message_oid x = param_messageId)
                       (\<lambda>x. x\<lparr>isDeleted := True, deletedAt := Some now\<rparr>) (chat_messages db)\<rparr>))"

text \<open>\<^verbatim>\<open>ChatController.answerQuestion\<close>.\<close>

definition answerQuestion ::
  "database \<Rightarrow> oid \<Rightarrow> oid \<Rightarrow> jsstring option \<Rightarrow> date \<Rightarrow> message_doc response \<times> database" where
  "answerQuestion db param_messageId userId body_answer now =
     (if blank body_answer then (Failure 400 ''Answer is required'', db)
      else case find (\<lambda>m. message_oid m = param_messageId) (chat_messages db) of
        None \<Rightarrow> (Failure 404 ''Question not found'', db)
      | Some m \<Rightarrow>
          if msg_messageType m \<noteq> ''question''
          then (Failure 400 ''This message is not a question'', db)
          else if isAnswered m
          then (Failure 400 ''This question has already been answered'', db)
          else
            let answered = (\<lambda>x. x\<lparr>answer := Some (trim (the body_answer)),
                                    answeredBy := Some userId, answeredAt := Some now,
                                    isAnswered := True\<rparr>)
            in (Success 200 (answered m),
                db\<lparr>chat_messages :=
                     update_first (\<lambda>x. message_oid x = param_messageId) answered (chat_messages db)\<rparr>))"

section \<open>The rating controller\<close>

text \<open>
  The validators of the Rating schema that a request can fail: the score is required and
  lies between 1 and 5, and a review has at most 1000 code units.
\<close>

definition validate_rating :: "rat option \<Rightarrow> jsstring option \<Rightarrow> bool" where
  "validate_rating body_rating body_review =
     ((case body_rating of None \<Rightarrow> False | Some r \<Rightarrow> 1 \<le> r \<and> r \<le> 5)
      \<and> (case body_review of None \<Rightarrow> True | Some t \<Rightarrow> length t \<le> 1000))"

text \<open>The key of the compound unique index \<^verbatim>\<open>{ reviewer: 1, targetType: 1, targetId: 1 }\<close>.\<close>

definition rating_key :: "rating_doc \<Rightarrow> oid \<times> string \<times> oid" where
  "rating_key r = (reviewer r, targetType r, targetId r)"

text \<open>The unique indexes of the collection (\<^verbatim>\<open>_id\<close>, \<^verbatim>\<open>rating_id\<close> and the compound one)
  reject an insertion that repeats a key.\<close>

definition duplicate_key :: "rating_doc \<Rightarrow> rating_doc list \<Rightarrow> bool" where
  "duplicate_key r rs =
     (rating_oid r \<in> set (map rating_oid rs) \<or> rating_id r \<in> set (map rating_id rs)
      \<or> rating_key r \<in> set (map rating_key rs))"

definition unique_indexes :: "rating_doc list \<Rightarrow> bool" where
  "unique_indexes rs =
     (distinct (map rating_oid rs) \<and> distinct (map rating_id rs) \<and> distinct (map rating_key rs))"

text \<open>
  \<^verbatim>\<open>updateGuideRating\<close>: the average of the visible ratings of a guide, rounded to one
  decimal by \<^verbatim>\<open>Math.round\<close> (exact arithmetic here), and their number.
\<close>

definition updateGuideRating :: "oid \<Rightarrow> database \<Rightarrow> database" where
  "updateGuideRating guideId db =
     (let rs = filter (\<lambda>r. targetType r = ''guide'' \<and> targetId r = guideId \<and> \<not> isHidden r)
                 (ratings db)
      in if length rs > 0
         then let totalRating = sum_list (map rating rs);
                  avgRating = of_int \<lfloor>totalRating / of_nat (length rs) * 10 + 1 / 2\<rfloor> / 10
              in db\<lparr>users := update_first (\<lambda>u. user_oid u = guideId)
                       (\<lambda>u. u\<lparr>guideInfo_rating_average := avgRating,
                               guideInfo_rating_count := length rs\<rparr>) (users db)\<rparr>
         else db)"

text \<open>
  \<^verbatim>\<open>RatingController.createRating\<close>. An absent \<^verbatim>\<open>targetType\<close> behaves as any string other
  than \<^verbatim>\<open>'guide'\<close> and \<^verbatim>\<open>'trip'\<close>. A failed validation or a repeated key makes \<^verbatim>\<open>save\<close>
  throw, and the \<^verbatim>\<open>catch\<close> answers 500. \<open>new_oid\<close> is the \<^verbatim>\<open>_id\<close> and \<open>now\<close> the
  creation date of a new rating.
\<close>

definition target_check :: "database \<Rightarrow> string \<Rightarrow> oid \<Rightarrow> (nat \<times> string) option" where
  "target_check db body_targetType body_targetId =
     (if body_targetType = ''guide''
      then (case find (\<lambda>u. user_oid u = body_targetId) (users db) of
              None \<Rightarrow> Some (404, ''Guide not found'')
            | Some target \<Rightarrow>
                if role target \<noteq> ''guide'' then Some (404, ''Guide not found'') else None)
      else if body_targetType = ''trip''
      then (case findById (trips db) body_targetId of
              None \<Rightarrow> Some (404, ''Trip not found'')
            | Some target \<Rightarrow> None)
      else Some (400, ''Invalid target type''))"

definition createRating ::
  "database \<Rightarrow> oid \<Rightarrow> string \<Rightarrow> oid \<Rightarrow> rat option \<Rightarrow> jsstring option \<Rightarrow> string \<Rightarrow> oid \<Rightarrow> date
     \<Rightarrow> rating_doc response \<times> database" where
  "createRating db reviewerId body_targetType body_targetId body_rating body_review
       uuid new_oid now =
     (case target_check db body_targetType body_targetId of
        Some (code, msg) \<Rightarrow> (Failure code msg, db)
      | None \<Rightarrow>
          (case find (\<lambda>r. reviewer r = reviewerId \<and> targetType r = body_targetType
                           \<and> targetId r = body_targetId) (ratings db) of
             Some existingRating \<Rightarrow>
               if \<not> validate_rating body_rating body_review
               then (Failure 500 ''Server error while creating rating'', db)
               else
                 let changed = (\<lambda>r. r\<lparr>rating := the body_rating, review := body_review\<rparr>)
                 in (Success 200 (changed existingRating),
                     db\<lparr>ratings := update_first
                          (\<lambda>r. rating_oid r = rating_oid existingRating) changed (ratings db)\<rparr>)
           | None \<Rightarrow>
               let newRating =
                     \<lparr>rating_oid = new_oid, rating_id = uuid, reviewer = reviewerId,
                      targetType = body_targetType, targetId = body_targetId,
                      rating = the body_rating, review = body_review, isVerified = False,
                      helpfulVotes = 0, reportCount = 0, isHidden = False,
                      rating_createdAt = now\<rparr>
               in if \<not> validate_rating body_rating body_review
                       \<or> duplicate_key newRating (ratings db)
                  then (Failure 500 ''Server error while creating rating'', db)
                  else
                    let db1 = db\<lparr>ratings := ratings db @ [newRating]\<rparr>
                    in (Success 201 newRating,
                        if body_targetType = ''guide''
                        then updateGuideRating body_targetId db1 else db1)))"

text \<open>\<^verbatim>\<open>RatingController.reportRating\<close>; the body's \<^verbatim>\<open>reason\<close> is read and not used.\<close>

definition reportRating :: "database \<Rightarrow> oid \<Rightarrow> unit response \<times> database" where
  "reportRating db ratingId =
     (case find (\<lambda>r. rating_oid r = ratingId) (ratings db) of
        None \<Rightarrow> (Failure 404 ''Rating not found'', db)
      | Some r \<Rightarrow>
          (Success 200 (),
           db\<lparr>ratings := update_first (\<lambda>x. rating_oid x = ratingId)
                (\<lambda>x. let x1 = x\<lparr>reportCount := reportCount x + 1\<rparr>
                      in if reportCount x1 \<ge> 5 then x1\<lparr>isHidden := True\<rparr> else x1)
                (ratings db)\<rparr>))"

text \<open>
  \<^verbatim>\<open>RatingController.getRatings\<close>: the query, its sort, skip and limit, and the count. The
  statistics of the answer (the store's aggregation of the same query) are not modelled.
\<close>

definition ratings_query :: "database \<Rightarrow> string \<Rightarrow> oid \<Rightarrow> rating_doc list" where
  "ratings_query db param_targetType param_targetId =
     filter (\<lambda>r. targetType r = param_targetType \<and> targetId r = param_targetId
                 \<and> isHidden r = False) (ratings db)"

definition sort_ratings :: "string \<Rightarrow> rating_doc list \<Rightarrow> rating_doc list" where
  "sort_ratings sort_by rs =
     (if sort_by = ''newest'' then sort_key (\<lambda>r. - int (rating_createdAt r)) rs
      else if sort_by = ''helpful'' then sort_key (\<lambda>r. - helpfulVotes r) rs
      else if sort_by = ''rating-high'' then sort_key (\<lambda>r. - rating r) rs
      else if sort_by = ''rating-low'' then sort_key rating rs
      else rs)"

definition getRatings ::
  "database \<Rightarrow> string \<Rightarrow> oid \<Rightarrow> int option \<Rightarrow> int option \<Rightarrow> string option
     \<Rightarrow> (rating_doc list \<times> pagination) response \<times> database" where
  "getRatings db param_targetType param_targetId query_page_no query_limit query_sort =
     (let page = query_int 1 query_page_no;
          limit = query_int 10 query_limit;
          sort_by = (case query_sort of None \<Rightarrow> ''newest'' | Some x \<Rightarrow> x);
          skip = (page - 1) * limit;
          found = ratings_query db param_targetType param_targetId
      in case query_page (sort_ratings sort_by found) skip limit of
           None \<Rightarrow> (Failure 500 ''Server error while fetching ratings'', db)
         | Some rs \<Rightarrow>
             (Success 200 (rs, \<lparr>current = page, total_pages = page_count (length found) limit,
                                count = length rs, totalItems = length found\<rparr>), db))"

text \<open>The ratings of the answer of \<^const>\<open>getRatings\<close> (none in a failure).\<close>

definition returned_ratings ::
  "(rating_doc list \<times> pagination) response \<Rightarrow> rating_doc list" where
  "returned_ratings r = (case r of Success c (rs, pg) \<Rightarrow> rs | Failure c msg \<Rightarrow> [])"

section \<open>Example data\<close>

text \<open>A trip with discussions, organized by user 1, with user 2 confirmed and user 3
  pending; a trip without discussions; a discussion of the first trip with one message.\<close>

definition trip_open :: trip where
  "trip_open = \<lparr>trip_oid = 10, title = ''Hike'', organizer = 1,
     participants = [\<lparr>user = 2, status = ''confirmed''\<rparr>, \<lparr>user = 3, status = ''pending''\<rparr>],
     collaborativeFeatures = \<lparr>allowDiscussions = True, allowItineraryEditing = True, lastActivity = 0\<rparr>\<rparr>"

definition trip_closed :: trip where
  "trip_closed = \<lparr>trip_oid = 11, title = ''Dive'', organizer = 1,
     participants = [\<lparr>user = 2, status = ''confirmed''\<rparr>],
     collaborativeFeatures = \<lparr>allowDiscussions = False, allowItineraryEditing = True, lastActivity = 0\<rparr>\<rparr>"

definition seed_message :: discussion_message where
  "seed_message = \<lparr>messageId = ''m-1'', author = 1, content = utf16 ''Welcome'',
     messageType = ''system'', metadata = None, timestamp = 5000, editedAt = None, isEdited = False\<rparr>"

definition db0 :: database where
  "db0 = \<lparr>users = [], trips = [trip_open, trip_closed],
          discussions = [\<lparr>trip = 10, messages = [seed_message], activeUsers = Map.empty\<rparr>],
          chats = [], chat_messages = [], ratings = [],
          io = True, emitted = []\<rparr>"

definition msg_hi :: "date \<Rightarrow> discussion_message" where
  "msg_hi t = \<lparr>messageId = ''m-2'', author = 1, content = utf16 ''hi'', messageType = ''text'',
                metadata = None, timestamp = t, editedAt = None, isEdited = False\<rparr>"

definition db_hi :: "date \<Rightarrow> database" where
  "db_hi t =
     \<lparr>users = [],
      trips = [trip_open\<lparr>collaborativeFeatures :=
                  (collaborativeFeatures trip_open)\<lparr>lastActivity := 6002\<rparr>\<rparr>, trip_closed],
      discussions = [\<lparr>trip = 10, messages = [seed_message, msg_hi t],
                      activeUsers = set_presence 1 6001 False Map.empty\<rparr>],
      chats = [], chat_messages = [], ratings = [],
      io = True, emitted = [TripNewMessage 10 (msg_hi t)]\<rparr>"

text \<open>Three users; a direct chat of users 1 and 2 with three messages, the last one an
  open question.\<close>

definition ann :: user_doc where
  "ann = \<lparr>user_oid = 1, name = ''Ann'', role = ''user'',
          guideInfo_rating_average = 0, guideInfo_rating_count = 0\<rparr>"

definition bob :: user_doc where
  "bob = \<lparr>user_oid = 2, name = ''Bob'', role = ''guide'',
          guideInfo_rating_average = 0, guideInfo_rating_count = 0\<rparr>"

definition cat :: user_doc where
  "cat = \<lparr>user_oid = 3, name = ''Cat'', role = ''user'',
          guideInfo_rating_average = 0, guideInfo_rating_count = 0\<rparr>"

definition chat_ab :: chat_doc where
  "chat_ab = \<lparr>chat_oid = 20, chat_id = ''c-1'', chatType = ''direct'',
              chat_participants = [\<lparr>member_user = 1, member_role = ''member''\<rparr>,
                                   \<lparr>member_user = 2, member_role = ''member''\<rparr>],
              lastMessage = None, chat_lastActivity = None\<rparr>"

definition text_message :: "oid \<Rightarrow> oid \<Rightarrow> string \<Rightarrow> date \<Rightarrow> message_doc" where
  "text_message i s ty t =
     \<lparr>message_oid = i, message_id = ''x'', chat = Some 20, msg_trip = None, sender = s,
      msg_content = utf16 ''hello'', msg_messageType = ty, readBy = [], isDeleted = False,
      deletedAt = None, answer = None, answeredBy = None, answeredAt = None,
      isAnswered = False, createdAt = t\<rparr>"

definition db_users :: database where
  "db_users = db0\<lparr>users := [ann, bob, cat]\<rparr>"

definition db_chat :: database where
  "db_chat = db0\<lparr>users := [ann, bob, cat], chats := [chat_ab],
       chat_messages := [text_message 31 1 ''text'' 100, text_message 32 2 ''text'' 300,
                         text_message 33 1 ''question'' 200]\<rparr>"

text \<open>A rating of the guide 2 by user 1 that was reported \<open>n\<close> times.\<close>

definition rating_of_bob :: "int \<Rightarrow> rating_doc" where
  "rating_of_bob n =
     \<lparr>rating_oid = 40, rating_id = ''r-1'', reviewer = 1, targetType = ''guide'', targetId = 2,
      rating = 4, review = None, isVerified = False, helpfulVotes = 0, reportCount = n,
      isHidden = False, rating_createdAt = 100\<rparr>"

definition db_rated :: "int \<Rightarrow> database" where
  "db_rated n = db0\<lparr>users := [ann, bob, cat], ratings := [rating_of_bob n]\<rparr>"

section \<open>The discussion service\<close>

lemma dropWhile_replicate_not: "\<not> P a \<Longrightarrow> dropWhile P (replicate n a) = replicate n a"
  by (cases n) simp_all

lemma trim_replicate: "\<not> is_ws a \<Longrightarrow> trim (replicate n a) = replicate n a"
  by (simp add: trim_def dropWhile_replicate_not)

lemma not_ws_a: "\<not> is_ws 0x61"
  by (simp add: is_ws_def)

lemma blank_replicate: "0 < n \<Longrightarrow> \<not> blank (Some (replicate n 0x61))"
  by (simp add: trim_replicate not_ws_a)

lemma find_update_first:
  "find P xs = Some x \<Longrightarrow> P (f x) \<Longrightarrow> find P (update_first P f xs) = Some (f x)"
  by (induction xs) (auto split: if_splits)

lemma find_snoc_None: "find P xs = None \<Longrightarrow> P d \<Longrightarrow> find P (xs @ [d]) = Some d"
  by (induction xs) (auto split: if_splits)

lemma trip_apply_update [simp]: "trip (apply_update m u s d) = trip d"
  by (simp add: apply_update_def)

lemma messages_apply_update [simp]: "messages (apply_update m u s d) = messages d @ [m]"
  by (simp add: apply_update_def)

lemma find_Some_P: "find P xs = Some x \<Longrightarrow> P x"
  by (induction xs) (auto split: if_splits)

lemma findOneAndUpdate_push:
  "\<exists>d ds. findOneAndUpdate \<lparr>opt_new = True, opt_upsert = True, opt_runValidators = False\<rparr> ds0 tripId m u s
            = Inr (Some d, ds)
        \<and> find (\<lambda>d. trip d = tripId) ds = Some d
        \<and> messages d = (case find (\<lambda>d. trip d = tripId) ds0 of None \<Rightarrow> [] | Some d0 \<Rightarrow> messages d0) @ [m]"
proof (cases "find (\<lambda>d. trip d = tripId) ds0")
  case None
  then show ?thesis
    by (simp add: findOneAndUpdate_def Let_def find_snoc_None)
next
  case (Some d0)
  then have "trip d0 = tripId" by (auto dest: find_Some_P)
  with Some show ?thesis
    by (simp add: findOneAndUpdate_def find_update_first)
qed

lemma discussions_emit [simp]: "discussions (emit e db) = discussions db"
  by (simp add: emit_def)

lemma sendMessage_authorized:
  assumes "\<not> blank c" "findById (trips db) tripId = Some t"
    "allowDiscussions (collaborativeFeatures t)"
    "isOrganizer t userId \<or> isParticipant t userId"
  shows "\<exists>m d db'. sendMessage db tripId userId c ty uuid t1 t2 t3 = (Success 201 m, db')
           \<and> find (\<lambda>d. trip d = tripId) (discussions db') = Some d
           \<and> messages d = (case find (\<lambda>d. trip d = tripId) (discussions db) of
                              None \<Rightarrow> [] | Some d0 \<Rightarrow> messages d0) @ [m]
           \<and> content m = trim (the c) \<and> author m = userId \<and> timestamp m = t1
           \<and> messageId m = uuid \<and> trips db' = touch_trip tripId t3 (trips db)"
proof -
  let ?m = "\<lparr>messageId = uuid, author = userId, content = trim (the c),
             messageType = (case ty of None \<Rightarrow> ''text'' | Some ty \<Rightarrow> ty),
             metadata = None, timestamp = t1, editedAt = None, isEdited = False\<rparr>"
  obtain d ds where
    u: "findOneAndUpdate \<lparr>opt_new = True, opt_upsert = True, opt_runValidators = False\<rparr>
          (discussions db) tripId ?m userId t2 = Inr (Some d, ds)"
    and f: "find (\<lambda>d. trip d = tripId) ds = Some d"
    and ms: "messages d = (case find (\<lambda>d. trip d = tripId) (discussions db) of
                              None \<Rightarrow> [] | Some d0 \<Rightarrow> messages d0) @ [?m]"
    using findOneAndUpdate_push [of "discussions db" tripId ?m userId t2] by blast
  from assms u ms have
    "sendMessage db tripId userId c ty uuid t1 t2 t3
       = (Success 201 ?m, emit (TripNewMessage tripId ?m)
            (db\<lparr>discussions := ds, trips := touch_trip tripId t3 (trips db)\<rparr>))"
    by (simp add: sendMessage_def Let_def)
  with f ms show ?thesis by (simp add: emit_def)
qed

lemma sendMessage_SuccessD:
  assumes "sendMessage db tripId userId c ty uuid t1 t2 t3 = (Success code m, db')"
  shows "\<exists>t. \<not> blank c \<and> findById (trips db) tripId = Some t
           \<and> allowDiscussions (collaborativeFeatures t)
           \<and> (isOrganizer t userId \<or> isParticipant t userId)"
  using assms
  by (auto simp: sendMessage_def Let_def split: if_splits option.splits sum.splits prod.splits)

lemma js_slice_page:
  assumes "0 \<le> skip" "0 \<le> limit"
  shows "js_slice xs skip (skip + limit) = take (nat limit) (drop (nat skip) xs)"
proof (cases "skip \<le> int (length xs)")
  case True
  with assms show ?thesis
    by (auto simp: js_slice_def Let_def min_def intro!: take_all_iff[THEN iffD2])
next
  case False
  with assms show ?thesis
    by (simp add: js_slice_def Let_def min_def)
qed

lemma getDiscussion_existing:
  assumes "findById (trips db) tripId = Some t"
    and "isOrganizer t userId \<or> isParticipant t userId"
    and "find (\<lambda>d. trip d = tripId) (discussions db) = Some d"
  shows "\<exists>payload. getDiscussion db tripId userId p l uuid now = (Success 200 payload, db)
     \<and> returned_messages (Success 200 payload)
         = js_slice (sort_key timestamp (messages d))
             ((query_int 1 p - 1) * query_int 50 l)
             ((query_int 1 p - 1) * query_int 50 l + query_int 50 l)"
  using assms
  by (auto simp: getDiscussion_def Let_def returned_messages_def)

lemma findById_touch_trip:
  assumes "findById ts tripId = Some t"
  shows "findById (touch_trip tripId d ts) tripId
           = Some (t\<lparr>collaborativeFeatures := (collaborativeFeatures t)\<lparr>lastActivity := d\<rparr>\<rparr>)"
proof -
  from assms have "trip_oid t = tripId"
    by (auto simp: findById_def dest: find_Some_P)
  with assms show ?thesis
    by (simp add: findById_def touch_trip_def find_update_first)
qed

lemma sendMessage_Success:
  assumes "sendMessage db tripId userId c ty uuid t1 t2 t3 = (Success code m, db1)"
  shows "\<exists>t d. findById (trips db) tripId = Some t
           \<and> trips db1 = touch_trip tripId t3 (trips db)
           \<and> find (\<lambda>d. trip d = tripId) (discussions db1) = Some d
           \<and> messages d = (case find (\<lambda>d. trip d = tripId) (discussions db) of
                              None \<Rightarrow> [] | Some d0 \<Rightarrow> messages d0) @ [m]
           \<and> code = 201"
proof -
  from sendMessage_SuccessD [OF assms] obtain t where
    t: "\<not> blank c" "findById (trips db) tripId = Some t"
       "allowDiscussions (collaborativeFeatures t)"
       "isOrganizer t userId \<or> isParticipant t userId"
    by blast
  from sendMessage_authorized [OF t, of ty uuid t1 t2 t3] assms t(2)
  show ?thesis by auto
qed

text \<open>
  Claim C1, as the code has it: the controller checks only that the content is not blank, and
  the update runs without the schema's validators; so for every content of 1000 code units
  or more after trimming, sent by the organizer or a confirmed participant of a trip with
  discussions, the message is stored in full as the last one of the trip's discussion and
  the answer is 201. For exactly 1000 code units that is what the claim says, for more it
  is not: the claim wants 400 and no stored message.
\<close>

theorem sendMessage_long_content_accepted:
  assumes "findById (trips db) tripId = Some t"
    and "allowDiscussions (collaborativeFeatures t)"
    and "isOrganizer t userId \<or> isParticipant t userId"
    and "1000 \<le> length (trim s)"
  shows "\<exists>m d db'. sendMessage db tripId userId (Some s) ty uuid t1 t2 t3 = (Success 201 m, db')
           \<and> find (\<lambda>d. trip d = tripId) (discussions db') = Some d
           \<and> last (messages d) = m \<and> content m = trim s
           \<and> length (content m) = length (trim s)"
proof -
  from assms(4) have "trim s \<noteq> []" by auto
  then have "s \<noteq> []" by (auto simp: trim_def)
  with \<open>trim s \<noteq> []\<close> have "\<not> blank (Some s)" by simp
  from sendMessage_authorized [OF this assms(1-3), of ty uuid t1 t2 t3] assms(4)
  show ?thesis by auto
qed

text \<open>
  The failing input of C1: 1001 letters sent by the organizer of the example trip are stored
  and answered with 201, as 1000 letters are.
\<close>

theorem sendMessage_long_content_accepted_witness:
  "findById (trips db0) 10 = Some trip_open
   \<and> allowDiscussions (collaborativeFeatures trip_open)
   \<and> isOrganizer trip_open 1
   \<and> 1000 \<le> length (trim (replicate 1001 0x61))
   \<and> status_code (fst (sendMessage db0 10 1 (Some (replicate 1001 0x61)) None ''m-2'' 6000 6001 6002)) = 201
   \<and> map (\<lambda>m. length (content m))
        (concat (map messages (discussions
           (snd (sendMessage db0 10 1 (Some (replicate 1001 0x61)) None ''m-2'' 6000 6001 6002)))))
      = [7, 1001]
   \<and> 1000 \<le> length (trim (replicate 1000 0x61))
   \<and> status_code (fst (sendMessage db0 10 1 (Some (replicate 1000 0x61)) None ''m-2'' 6000 6001 6002)) = 201"
proof -
  have h: "findById (trips db0) 10 = Some trip_open"
    "allowDiscussions (collaborativeFeatures trip_open)"
    "isOrganizer trip_open 1 \<or> isParticipant trip_open 1"
    "1000 \<le> length (trim (replicate 1001 0x61))"
    by (simp_all add: db0_def findById_def trip_open_def isOrganizer_def trim_replicate not_ws_a)
  from sendMessage_long_content_accepted [OF h, of None "''m-2''" 6000 6001 6002]
  have st: "status_code (fst (sendMessage db0 10 1 (Some (replicate 1001 0x61)) None
              ''m-2'' 6000 6001 6002)) = 201"
    by auto
  have "discussions (snd (sendMessage db0 10 1 (Some (replicate 1001 0x61)) None
              ''m-2'' 6000 6001 6002))
        = [\<lparr>trip = 10,
            messages = [seed_message,
              \<lparr>messageId = ''m-2'', author = 1, content = replicate 1001 0x61,
               messageType = ''text'', metadata = None, timestamp = 6000,
               editedAt = None, isEdited = False\<rparr>],
            activeUsers = set_presence 1 6001 False Map.empty\<rparr>]"
    by (simp add: sendMessage_def blank_replicate db0_def findById_def trip_open_def
        isOrganizer_def findOneAndUpdate_def apply_update_def Let_def trim_replicate not_ws_a
        del: blank.simps)
  then have "map (\<lambda>m. length (content m))
        (concat (map messages (discussions
           (snd (sendMessage db0 10 1 (Some (replicate 1001 0x61)) None ''m-2'' 6000 6001 6002)))))
      = [7, 1001]"
    by (simp add: seed_message_def utf16_def)
  moreover have "isOrganizer trip_open 1"
    by (simp add: isOrganizer_def trip_open_def)
  moreover have k: "1000 \<le> length (trim (replicate 1000 0x61))"
    by (simp add: trim_replicate not_ws_a)
  moreover from sendMessage_long_content_accepted [OF h(1-3) k, of None "''m-2''" 6000 6001 6002]
  have "status_code (fst (sendMessage db0 10 1 (Some (replicate 1000 0x61)) None
              ''m-2'' 6000 6001 6002)) = 201"
    by auto
  ultimately show ?thesis using st h(1,2,4) by simp
qed

text \<open>
  Claim C2, amended: on a trip whose \<^verbatim>\<open>allowDiscussions\<close> is false, a call to
  \<^const>\<open>sendMessage\<close> by any user leaves the whole state as it was; it answers 403 when
  the content is not blank, and 400 when it is absent or blank.
\<close>

theorem sendMessage_discussions_disabled:
  assumes "findById (trips db) tripId = Some t"
    and "\<not> allowDiscussions (collaborativeFeatures t)"
  shows "snd (sendMessage db tripId userId c ty uuid t1 t2 t3) = db
       \<and> status_code (fst (sendMessage db tripId userId c ty uuid t1 t2 t3))
           = (if blank c then 400 else 403)"
  using assms by (simp add: sendMessage_def)

text \<open>
  C2 at the example trip without discussions: its organizer, a confirmed participant and a
  stranger all get 403.
\<close>

theorem sendMessage_discussions_disabled_witness:
  "findById (trips db0) 11 = Some trip_closed
   \<and> \<not> allowDiscussions (collaborativeFeatures trip_closed)
   \<and> isOrganizer trip_closed 1 \<and> isParticipant trip_closed 2
   \<and> \<not> isOrganizer trip_closed 3 \<and> \<not> isParticipant trip_closed 3
   \<and> snd (sendMessage db0 11 1 (Some (utf16 ''hello'')) None ''m-2'' 6000 6001 6002) = db0
   \<and> status_code (fst (sendMessage db0 11 1 (Some (utf16 ''hello'')) None ''m-2'' 6000 6001 6002)) = 403
   \<and> status_code (fst (sendMessage db0 11 2 (Some (utf16 ''hello'')) None ''m-2'' 6000 6001 6002)) = 403
   \<and> status_code (fst (sendMessage db0 11 3 (Some (utf16 ''hello'')) None ''m-2'' 6000 6001 6002)) = 403"
proof -
  have h: "findById (trips db0) 11 = Some trip_closed"
    "\<not> allowDiscussions (collaborativeFeatures trip_closed)"
    by (simp_all add: db0_def findById_def trip_open_def trip_closed_def)
  have b: "\<not> blank (Some (utf16 ''hello''))"
    by (simp add: utf16_def trim_def is_ws_def)
  from sendMessage_discussions_disabled [OF h, of 1 "Some (utf16 ''hello'')" None "''m-2''" 6000 6001 6002]
    sendMessage_discussions_disabled [OF h, of 2 "Some (utf16 ''hello'')" None "''m-2''" 6000 6001 6002]
    sendMessage_discussions_disabled [OF h, of 3 "Some (utf16 ''hello'')" None "''m-2''" 6000 6001 6002]
    h b
  show ?thesis
    by (simp add: isOrganizer_def isParticipant_def trip_closed_def)
qed

text \<open>
  C2 as stated fails: the blank-content check comes first, so the organizer of a trip
  without discussions who sends two spaces gets 400, not 403.
\<close>

theorem sendMessage_disabled_blank_counterexample:
  "findById (trips db0) 11 = Some trip_closed
   \<and> allowDiscussions (collaborativeFeatures trip_closed) = False
   \<and> status_code (fst (sendMessage db0 11 1 (Some (utf16 ''  '')) None ''m-2'' 6000 6001 6002)) = 400
   \<and> status_code (fst (sendMessage db0 11 1 (Some (utf16 ''  '')) None ''m-2'' 6000 6001 6002)) \<noteq> 403"
  by (simp add: sendMessage_def db0_def findById_def trip_open_def trip_closed_def utf16_def
      trim_def is_ws_def)

lemma isOrganizer_touch [simp]:
  "isOrganizer (t\<lparr>collaborativeFeatures := cf\<rparr>) u = isOrganizer t u"
  by (simp add: isOrganizer_def)

lemma isParticipant_touch [simp]:
  "isParticipant (t\<lparr>collaborativeFeatures := cf\<rparr>) u = isParticipant t u"
  by (simp add: isParticipant_def)

lemma sorted_page:
  "sorted (map f (take n (drop k (sort_key f xs))))"
  by (simp add: take_map [symmetric] drop_map [symmetric] sorted_wrt_take sorted_wrt_drop)

text \<open>
  Claim C3, amended: after a successful \<^const>\<open>sendMessage\<close>, \<^const>\<open>getDiscussion\<close> by
  the organizer or a confirmed participant, with a page from 1 and a limit from 0, answers 200
  and changes nothing; the trip's stored messages hold the new message; the answer is the
  slice at offset (page - 1) * limit of length limit of these messages stably sorted by
  timestamp, so its timestamps ascend, equal ones allowed; and the first page of a limit that
  covers all messages holds the new message.
\<close>

theorem sendMessage_getDiscussion_roundtrip:
  assumes "sendMessage db tripId userId c ty uuid t1 t2 t3 = (Success code m, db1)"
    and "findById (trips db) tripId = Some t"
    and "isOrganizer t requester \<or> isParticipant t requester"
    and "1 \<le> query_int 1 p" and "0 \<le> query_int 50 l"
  shows "\<exists>d payload.
           find (\<lambda>d. trip d = tripId) (discussions db1) = Some d
         \<and> m \<in> set (sort_key timestamp (messages d))
         \<and> sorted (map timestamp (sort_key timestamp (messages d)))
         \<and> getDiscussion db1 tripId requester p l uuid' now = (Success 200 payload, db1)
         \<and> returned_messages (Success 200 payload)
             = take (nat (query_int 50 l))
                 (drop (nat ((query_int 1 p - 1) * query_int 50 l))
                    (sort_key timestamp (messages d)))
         \<and> sorted (map timestamp (returned_messages (Success 200 payload)))
         \<and> (query_int 1 p = 1 \<and> int (length (messages d)) \<le> query_int 50 l
              \<longrightarrow> m \<in> set (returned_messages (Success 200 payload)))"
proof -
  from sendMessage_Success [OF assms(1)] assms(2) obtain d where
    tr: "trips db1 = touch_trip tripId t3 (trips db)"
    and f: "find (\<lambda>d. trip d = tripId) (discussions db1) = Some d"
    and ms: "messages d = (case find (\<lambda>d. trip d = tripId) (discussions db) of
                              None \<Rightarrow> [] | Some d0 \<Rightarrow> messages d0) @ [m]"
    by auto
  let ?t = "t\<lparr>collaborativeFeatures := (collaborativeFeatures t)\<lparr>lastActivity := t3\<rparr>\<rparr>"
  have ft: "findById (trips db1) tripId = Some ?t"
    using findById_touch_trip [OF assms(2)] tr by simp
  have au: "isOrganizer ?t requester \<or> isParticipant ?t requester"
    using assms(3) by simp
  from getDiscussion_existing [OF ft au f, of p l uuid' now] obtain payload where
    g: "getDiscussion db1 tripId requester p l uuid' now = (Success 200 payload, db1)"
    and rm: "returned_messages (Success 200 payload)
         = js_slice (sort_key timestamp (messages d))
             ((query_int 1 p - 1) * query_int 50 l)
             ((query_int 1 p - 1) * query_int 50 l + query_int 50 l)"
    by blast
  have sk: "0 \<le> (query_int 1 p - 1) * query_int 50 l"
    using assms(4,5) by simp
  have pg: "returned_messages (Success 200 payload)
             = take (nat (query_int 50 l))
                 (drop (nat ((query_int 1 p - 1) * query_int 50 l))
                    (sort_key timestamp (messages d)))"
    using rm js_slice_page [OF sk assms(5)] by simp
  have mem: "m \<in> set (sort_key timestamp (messages d))"
    using ms by simp
  have all: "query_int 1 p = 1 \<and> int (length (messages d)) \<le> query_int 50 l
              \<longrightarrow> m \<in> set (returned_messages (Success 200 payload))"
    using pg mem by auto
  have "sorted (map timestamp (returned_messages (Success 200 payload)))"
    unfolding pg by (rule sorted_page)
  with f mem g pg all show ?thesis by auto
qed

lemma sendMessage_db0_hi:
  "sendMessage db0 10 1 (Some (utf16 ''hi'')) None ''m-2'' t 6001 6002
     = (Success 201 (msg_hi t), db_hi t)"
proof -
  have "\<not> blank (Some (utf16 ''hi''))" "trim (utf16 ''hi'') = utf16 ''hi''"
    by (simp_all add: utf16_def trim_def is_ws_def)
  then show ?thesis
    by (simp add: sendMessage_def db0_def findById_def trip_open_def msg_hi_def db_hi_def
        isOrganizer_def findOneAndUpdate_def apply_update_def Let_def touch_trip_def emit_def
        del: blank.simps)
qed

lemma getDiscussion_db_hi:
  "\<exists>payload. getDiscussion (db_hi t) 10 2 None None ''m-3'' 7000 = (Success 200 payload, db_hi t)
     \<and> returned_messages (Success 200 payload) = sort_key timestamp [seed_message, msg_hi t]"
proof -
  let ?t = "trip_open\<lparr>collaborativeFeatures :=
                  (collaborativeFeatures trip_open)\<lparr>lastActivity := 6002\<rparr>\<rparr>"
  have 1: "findById (trips (db_hi t)) 10 = Some ?t"
    by (simp add: db_hi_def findById_def trip_open_def)
  have 2: "isOrganizer ?t 2 \<or> isParticipant ?t 2"
    by (simp add: isParticipant_def trip_open_def)
  have 3: "find (\<lambda>d. trip d = 10) (discussions (db_hi t))
             = Some \<lparr>trip = 10, messages = [seed_message, msg_hi t],
                      activeUsers = set_presence 1 6001 False Map.empty\<rparr>"
    by (simp add: db_hi_def)
  have 4: "js_slice (sort_key timestamp [seed_message, msg_hi t]) 0 50
             = sort_key timestamp [seed_message, msg_hi t]"
    using js_slice_page [of 0 50 "sort_key timestamp [seed_message, msg_hi t]"] by simp
  from getDiscussion_existing [OF 1 2 3, of None None "''m-3''" 7000] 4
  show ?thesis by (simp add: query_int_def)
qed

text \<open>
  C3 as stated fails: a message sent in the millisecond of an earlier one comes back next to
  it, and the timestamps of the answer are not strictly ascending.
\<close>

theorem getDiscussion_equal_timestamps_counterexample:
  "sendMessage db0 10 1 (Some (utf16 ''hi'')) None ''m-2'' 5000 6001 6002
     = (Success 201 (msg_hi 5000), db_hi 5000)
   \<and> isParticipant trip_open 2
   \<and> status_code (fst (getDiscussion (db_hi 5000) 10 2 None None ''m-3'' 7000)) = 200
   \<and> map timestamp (returned_messages (fst (getDiscussion (db_hi 5000) 10 2 None None ''m-3'' 7000)))
        = [5000, 5000]
   \<and> \<not> sorted_wrt (<) (map timestamp
         (returned_messages (fst (getDiscussion (db_hi 5000) 10 2 None None ''m-3'' 7000))))"
proof -
  from getDiscussion_db_hi [of 5000] obtain payload where
    g: "getDiscussion (db_hi 5000) 10 2 None None ''m-3'' 7000 = (Success 200 payload, db_hi 5000)"
    and r: "returned_messages (Success 200 payload) = sort_key timestamp [seed_message, msg_hi 5000]"
    by blast
  have "map timestamp (sort_key timestamp [seed_message, msg_hi 5000]) = [5000, 5000]"
    by (simp add: seed_message_def msg_hi_def)
  with g r sendMessage_db0_hi [of 5000] show ?thesis
    by (simp add: isParticipant_def trip_open_def)
qed

text \<open>
  C3 at the example trip: a message with an older timestamp than the stored one comes back
  first.
\<close>

theorem sendMessage_getDiscussion_roundtrip_witness:
  "sendMessage db0 10 1 (Some (utf16 ''hi'')) None ''m-2'' 4000 6001 6002
     = (Success 201 (msg_hi 4000), db_hi 4000)
   \<and> findById (trips db0) 10 = Some trip_open
   \<and> isParticipant trip_open 2
   \<and> 1 \<le> query_int 1 None \<and> 0 \<le> query_int 50 None
   \<and> msg_hi 4000 \<in> set (returned_messages (fst (getDiscussion (db_hi 4000) 10 2 None None ''m-3'' 7000)))
   \<and> map timestamp (returned_messages (fst (getDiscussion (db_hi 4000) 10 2 None None ''m-3'' 7000)))
        = [4000, 5000]"
proof -
  have h: "findById (trips db0) 10 = Some trip_open"
    "isOrganizer trip_open 2 \<or> isParticipant trip_open 2"
    "1 \<le> query_int 1 None" "0 \<le> query_int 50 None"
    by (simp_all add: db0_def findById_def trip_open_def isParticipant_def query_int_def)
  have f: "find (\<lambda>d. trip d = 10) (discussions (db_hi 4000))
             = Some \<lparr>trip = 10, messages = [seed_message, msg_hi 4000],
                      activeUsers = set_presence 1 6001 False Map.empty\<rparr>"
    by (simp add: db_hi_def)
  have srt: "map timestamp (sort_key timestamp [seed_message, msg_hi 4000]) = [4000, 5000]"
    by (simp add: seed_message_def msg_hi_def)
  from sendMessage_getDiscussion_roundtrip
         [OF sendMessage_db0_hi [of 4000] h, of "''m-3''" 7000] f srt
  have "msg_hi 4000 \<in> set (returned_messages (fst (getDiscussion (db_hi 4000) 10 2 None None ''m-3'' 7000)))
     \<and> map timestamp (returned_messages (fst (getDiscussion (db_hi 4000) 10 2 None None ''m-3'' 7000)))
        = [4000, 5000]"
    by (auto simp: query_int_def)
  with sendMessage_db0_hi [of 4000] h show ?thesis
    by (simp add: isParticipant_def trip_open_def)
qed

section \<open>The chat service\<close>

lemma find_Some_set: "find P xs = Some x \<Longrightarrow> x \<in> set xs"
  by (induction xs) (auto split: if_splits)

lemma find_None_filter: "find P xs = None \<Longrightarrow> filter P xs = []"
  by (induction xs) (auto split: if_splits)

lemma find_None_list_ex: "(find P xs = None) = (\<not> list_ex P xs)"
  by (induction xs) auto

lemma direct_chat_of_sym: "direct_chat_of a b = direct_chat_of b a"
  by (rule ext) (auto simp: direct_chat_of_def)

lemma direct_chat_of_new:
  "direct_chat_of a b \<lparr>chat_oid = i, chat_id = u, chatType = ''direct'',
      chat_participants = [\<lparr>member_user = a, member_role = ''member''\<rparr>,
                           \<lparr>member_user = b, member_role = ''member''\<rparr>],
      lastMessage = None, chat_lastActivity = None\<rparr>"
  by (simp add: direct_chat_of_def)

lemma createDirectChat_existing:
  assumes "find (\<lambda>u. user_oid u = b) (users db) = Some ub"
    and "find (direct_chat_of a b) (chats db) = Some c"
  shows "createDirectChat db a (Some b) uuid new_oid = (Success 200 c, db)"
  using assms by (simp add: createDirectChat_def)

lemma createDirectChat_new:
  assumes "find (\<lambda>u. user_oid u = b) (users db) = Some ub"
    and "find (direct_chat_of a b) (chats db) = None"
  shows "\<exists>c. createDirectChat db a (Some b) uuid new_oid
                 = (Success 201 c, db\<lparr>chats := chats db @ [c]\<rparr>)
             \<and> direct_chat_of a b c \<and> chat_oid c = new_oid \<and> chat_id c = uuid
             \<and> map member_user (chat_participants c) = [a, b]
             \<and> map member_role (chat_participants c) = [''member'', ''member'']"
  using assms by (simp add: createDirectChat_def Let_def direct_chat_of_new)

text \<open>
  Claim C4: for two existing users, \<^const>\<open>createDirectChat\<close> answers with a direct chat of
  both, and the same call again, in either order of the two users, answers 200 with that very
  chat and changes nothing. When a direct chat of both exists already, the first call
  answers 200 and changes nothing; when none exists it answers 201 and adds one chat, which is
  then the only direct chat of the two.
\<close>

theorem createDirectChat_idempotent_symmetric:
  assumes "find (\<lambda>u. user_oid u = a) (users db) = Some ua"
    and "find (\<lambda>u. user_oid u = b) (users db) = Some ub"
  shows "\<exists>code c db1.
           createDirectChat db a (Some b) uuid1 oid1 = (Success code c, db1)
         \<and> createDirectChat db1 b (Some a) uuid2 oid2 = (Success 200 c, db1)
         \<and> createDirectChat db1 a (Some b) uuid2 oid2 = (Success 200 c, db1)
         \<and> direct_chat_of a b c \<and> c \<in> set (chats db1)
         \<and> (if list_ex (direct_chat_of a b) (chats db)
             then code = 200 \<and> db1 = db
             else code = 201 \<and> db1 = db\<lparr>chats := chats db @ [c]\<rparr>
                  \<and> filter (direct_chat_of a b) (chats db1) = [c])"
proof (cases "find (direct_chat_of a b) (chats db)")
  case None
  from createDirectChat_new [OF assms(2) None, of uuid1 oid1] obtain c where
    c: "createDirectChat db a (Some b) uuid1 oid1 = (Success 201 c, db\<lparr>chats := chats db @ [c]\<rparr>)"
    and d: "direct_chat_of a b c"
    by blast
  let ?db1 = "db\<lparr>chats := chats db @ [c]\<rparr>"
  have f: "find (direct_chat_of a b) (chats ?db1) = Some c"
    using None d by (simp add: find_snoc_None)
  then have f': "find (direct_chat_of b a) (chats ?db1) = Some c"
    by (simp only: direct_chat_of_sym [of b a])
  have u: "find (\<lambda>u. user_oid u = a) (users ?db1) = Some ua"
    "find (\<lambda>u. user_oid u = b) (users ?db1) = Some ub"
    using assms by simp_all
  have "filter (direct_chat_of a b) (chats ?db1) = [c]"
    using None d by (simp add: find_None_filter)
  moreover have "\<not> list_ex (direct_chat_of a b) (chats db)"
    using None by (simp add: find_None_list_ex)
  ultimately show ?thesis
    using c d createDirectChat_existing [OF u(1) f'] createDirectChat_existing [OF u(2) f]
    by auto
next
  case (Some c)
  then have f': "find (direct_chat_of b a) (chats db) = Some c"
    by (simp only: direct_chat_of_sym [of b a])
  have "list_ex (direct_chat_of a b) (chats db)"
    using Some find_None_list_ex [of "direct_chat_of a b" "chats db"] by auto
  then show ?thesis
    using createDirectChat_existing [OF assms(2) Some]
      createDirectChat_existing [OF assms(1) f'] find_Some_P [OF Some] find_Some_set [OF Some]
    by auto
qed

text \<open>
  C4 for users 1 and 2 without a chat: user 1 creates it, user 2 gets the same chat.
\<close>

theorem createDirectChat_idempotent_symmetric_witness:
  "find (\<lambda>u. user_oid u = 1) (users db_users) = Some ann
   \<and> find (\<lambda>u. user_oid u = 2) (users db_users) = Some bob
   \<and> createDirectChat db_users 1 (Some 2) ''c-1'' 20
        = (Success 201 chat_ab, db_users\<lparr>chats := [chat_ab]\<rparr>)
   \<and> createDirectChat (db_users\<lparr>chats := [chat_ab]\<rparr>) 2 (Some 1) ''c-2'' 21
        = (Success 200 chat_ab, db_users\<lparr>chats := [chat_ab]\<rparr>)
   \<and> filter (direct_chat_of 1 2) (chats (db_users\<lparr>chats := [chat_ab]\<rparr>)) = [chat_ab]"
proof -
  have h: "find (\<lambda>u. user_oid u = 1) (users db_users) = Some ann"
    "find (\<lambda>u. user_oid u = 2) (users db_users) = Some bob"
    by (simp_all add: db_users_def ann_def bob_def)
  have e: "createDirectChat db_users 1 (Some 2) ''c-1'' 20
             = (Success 201 chat_ab, db_users\<lparr>chats := [chat_ab]\<rparr>)"
    by (simp add: createDirectChat_def db_users_def db0_def ann_def bob_def chat_ab_def Let_def)
  have n: "chats db_users = []"
    by (simp add: db_users_def db0_def)
  from createDirectChat_idempotent_symmetric [OF h, of "''c-1''" 20 "''c-2''" 21] e n h
  show ?thesis by auto
qed

lemma length_update_first [simp]: "length (update_first P f xs) = length xs"
  by (induction xs) auto

lemma filter_update_first:
  "(\<And>x. P x \<Longrightarrow> P (f x)) \<Longrightarrow>
     filter (\<lambda>x. \<not> P x) (update_first P f xs) = filter (\<lambda>x. \<not> P x) xs"
  by (induction xs) auto

text \<open>
  Claim C7: for an existing message that is not a question or is answered already,
  \<^const>\<open>answerQuestion\<close> answers 400 and the state is unchanged; for an open question and a
  non-blank answer it answers 200, the stored message differs from the old one in exactly
  the answer, the answerer, the date of the answer and the answered flag, and no other message
  and no other part of the state changes.
\<close>

theorem answerQuestion_guarded:
  assumes "find (\<lambda>m. message_oid m = mid) (chat_messages db) = Some m"
  shows "(msg_messageType m \<noteq> ''question'' \<or> isAnswered m \<longrightarrow>
            status_code (fst (answerQuestion db mid u a now)) = 400
          \<and> snd (answerQuestion db mid u a now) = db)
       \<and> (msg_messageType m = ''question'' \<and> \<not> isAnswered m \<and> \<not> blank a \<longrightarrow>
            (\<exists>db'. answerQuestion db mid u a now
                      = (Success 200 (m\<lparr>answer := Some (trim (the a)), answeredBy := Some u,
                                         answeredAt := Some now, isAnswered := True\<rparr>), db')
                  \<and> find (\<lambda>m. message_oid m = mid) (chat_messages db')
                      = Some (m\<lparr>answer := Some (trim (the a)), answeredBy := Some u,
                                 answeredAt := Some now, isAnswered := True\<rparr>)
                  \<and> length (chat_messages db') = length (chat_messages db)
                  \<and> filter (\<lambda>x. message_oid x \<noteq> mid) (chat_messages db')
                      = filter (\<lambda>x. message_oid x \<noteq> mid) (chat_messages db)
                  \<and> db' = db\<lparr>chat_messages := chat_messages db'\<rparr>))"
proof -
  let ?f = "\<lambda>x. x\<lparr>answer := Some (trim (the a)), answeredBy := Some u,
                    answeredAt := Some now, isAnswered := True\<rparr>"
  have id: "message_oid m = mid"
    using find_Some_P [OF assms] .
  have 1: "find (\<lambda>m. message_oid m = mid)
             (update_first (\<lambda>x. message_oid x = mid) ?f (chat_messages db)) = Some (?f m)"
    using assms id by (intro find_update_first) simp_all
  have 2: "filter (\<lambda>x. message_oid x \<noteq> mid)
             (update_first (\<lambda>x. message_oid x = mid) ?f (chat_messages db))
           = filter (\<lambda>x. message_oid x \<noteq> mid) (chat_messages db)"
    by (intro filter_update_first) simp
  show ?thesis
    using assms 1 2 by (auto simp: answerQuestion_def Let_def)
qed

text \<open>
  Claim C9: for an existing message, \<^const>\<open>deleteMessage\<close> by anyone but its sender answers
  403 and changes nothing; by the sender it answers 200, the message stays in the collection
  and differs from the old one in exactly the deleted flag and the date of the deletion, and
  no other message and no other part of the state changes.
\<close>

theorem deleteMessage_soft:
  assumes "find (\<lambda>m. message_oid m = mid) (chat_messages db) = Some m"
  shows "(sender m \<noteq> u \<longrightarrow>
            deleteMessage db mid u now
              = (Failure 403 ''Only the sender can delete this message'', db))
       \<and> (sender m = u \<longrightarrow>
            (\<exists>db'. deleteMessage db mid u now = (Success 200 (), db')
                  \<and> find (\<lambda>m. message_oid m = mid) (chat_messages db')
                      = Some (m\<lparr>isDeleted := True, deletedAt := Some now\<rparr>)
                  \<and> length (chat_messages db') = length (chat_messages db)
                  \<and> filter (\<lambda>x. message_oid x \<noteq> mid) (chat_messages db')
                      = filter (\<lambda>x. message_oid x \<noteq> mid) (chat_messages db)
                  \<and> db' = db\<lparr>chat_messages := chat_messages db'\<rparr>))"
proof -
  let ?f = "\<lambda>x. x\<lparr>isDeleted := True, deletedAt := Some now\<rparr>"
  have id: "message_oid m = mid"
    using find_Some_P [OF assms] .
  have 1: "find (\<lambda>m. message_oid m = mid)
             (update_first (\<lambda>x. message_oid x = mid) ?f (chat_messages db)) = Some (?f m)"
    using assms id by (intro find_update_first) simp_all
  have 2: "filter (\<lambda>x. message_oid x \<noteq> mid)
             (update_first (\<lambda>x. message_oid x = mid) ?f (chat_messages db))
           = filter (\<lambda>x. message_oid x \<noteq> mid) (chat_messages db)"
    by (intro filter_update_first) simp
  show ?thesis
    using assms 1 2 by (auto simp: deleteMessage_def)
qed

lemma db_chat_find:
  "find (\<lambda>m. message_oid m = 31) (chat_messages db_chat) = Some (text_message 31 1 ''text'' 100)"
  "find (\<lambda>m. message_oid m = 33) (chat_messages db_chat) = Some (text_message 33 1 ''question'' 200)"
  by (simp_all add: db_chat_def text_message_def)

lemma not_blank_hello: "\<not> blank (Some (utf16 ''hello''))" "trim (utf16 ''hello'') = utf16 ''hello''"
  by (simp_all add: utf16_def trim_def is_ws_def)

text \<open>
  C7 in the example chat: a text message cannot be answered, the open question can.
\<close>

theorem answerQuestion_guarded_witness:
  "find (\<lambda>m. message_oid m = 31) (chat_messages db_chat) = Some (text_message 31 1 ''text'' 100)
   \<and> msg_messageType (text_message 31 1 ''text'' 100) \<noteq> ''question''
   \<and> status_code (fst (answerQuestion db_chat 31 2 (Some (utf16 ''hello'')) 900)) = 400
   \<and> snd (answerQuestion db_chat 31 2 (Some (utf16 ''hello'')) 900) = db_chat
   \<and> find (\<lambda>m. message_oid m = 33) (chat_messages db_chat)
        = Some (text_message 33 1 ''question'' 200)
   \<and> msg_messageType (text_message 33 1 ''question'' 200) = ''question''
   \<and> \<not> isAnswered (text_message 33 1 ''question'' 200)
   \<and> \<not> blank (Some (utf16 ''hello''))
   \<and> fst (answerQuestion db_chat 33 2 (Some (utf16 ''hello'')) 900)
        = Success 200 ((text_message 33 1 ''question'' 200)
            \<lparr>answer := Some (utf16 ''hello''), answeredBy := Some 2,
             answeredAt := Some 900, isAnswered := True\<rparr>)"
proof -
  have t: "msg_messageType (text_message 31 1 ''text'' 100) \<noteq> ''question''"
    "msg_messageType (text_message 33 1 ''question'' 200) = ''question''"
    "\<not> isAnswered (text_message 33 1 ''question'' 200)"
    by (simp_all add: text_message_def)
  from answerQuestion_guarded [OF db_chat_find(1), of 2 "Some (utf16 ''hello'')" 900]
    answerQuestion_guarded [OF db_chat_find(2), of 2 "Some (utf16 ''hello'')" 900]
    t not_blank_hello db_chat_find
  show ?thesis by auto
qed

text \<open>
  C9 in the example chat: user 2 may not delete the message of user 1, user 1 may.
\<close>

theorem deleteMessage_soft_witness:
  "find (\<lambda>m. message_oid m = 31) (chat_messages db_chat) = Some (text_message 31 1 ''text'' 100)
   \<and> sender (text_message 31 1 ''text'' 100) \<noteq> 2
   \<and> deleteMessage db_chat 31 2 900
        = (Failure 403 ''Only the sender can delete this message'', db_chat)
   \<and> sender (text_message 31 1 ''text'' 100) = 1
   \<and> fst (deleteMessage db_chat 31 1 900) = Success 200 ()
   \<and> chat_messages (snd (deleteMessage db_chat 31 1 900))
        = [(text_message 31 1 ''text'' 100)\<lparr>isDeleted := True, deletedAt := Some 900\<rparr>,
           text_message 32 2 ''text'' 300, text_message 33 1 ''question'' 200]"
proof -
  have t: "sender (text_message 31 1 ''text'' 100) \<noteq> 2"
    "sender (text_message 31 1 ''text'' 100) = 1"
    by (simp_all add: text_message_def)
  have e: "chat_messages (snd (deleteMessage db_chat 31 1 900))
        = [(text_message 31 1 ''text'' 100)\<lparr>isDeleted := True, deletedAt := Some 900\<rparr>,
           text_message 32 2 ''text'' 300, text_message 33 1 ''question'' 200]"
    by (simp add: deleteMessage_def db_chat_def text_message_def)
  from deleteMessage_soft [OF db_chat_find(1), of 2 900]
    deleteMessage_soft [OF db_chat_find(1), of 1 900] t e db_chat_find(1)
  show ?thesis by auto
qed

lemma addToSet_new [simp]: "x \<notin> set xs \<Longrightarrow> addToSet x xs = xs @ [x]"
  by (simp add: addToSet_def)

text \<open>
  Claim C10: \<^const>\<open>markAsRead\<close> answers 200 for every state, chat identifier and user (there
  is no participant check); it appends the user to the read-by list of exactly the messages
  of the chat that the user did not send and that do not hold the user yet, so that afterwards
  every message of the chat sent by someone else holds the user; a second call changes
  nothing.
\<close>

theorem markAsRead_unguarded_idempotent:
  "fst (markAsRead db chatId u) = Success 200 ()
   \<and> length (chat_messages (snd (markAsRead db chatId u))) = length (chat_messages db)
   \<and> (\<forall>i < length (chat_messages db).
        chat_messages (snd (markAsRead db chatId u)) ! i
          = (if chat (chat_messages db ! i) = Some chatId \<and> sender (chat_messages db ! i) \<noteq> u
                \<and> u \<notin> set (readBy (chat_messages db ! i))
             then (chat_messages db ! i)\<lparr>readBy := readBy (chat_messages db ! i) @ [u]\<rparr>
             else chat_messages db ! i))
   \<and> (\<forall>m \<in> set (chat_messages (snd (markAsRead db chatId u))).
        chat m = Some chatId \<and> sender m \<noteq> u \<longrightarrow> u \<in> set (readBy m))
   \<and> markAsRead (snd (markAsRead db chatId u)) chatId u
        = (Success 200 (), snd (markAsRead db chatId u))
   \<and> snd (markAsRead db chatId u)
        = db\<lparr>chat_messages := chat_messages (snd (markAsRead db chatId u))\<rparr>"
proof -
  let ?g = "\<lambda>m. if chat m = Some chatId \<and> sender m \<noteq> u \<and> u \<notin> set (readBy m)
                  then m\<lparr>readBy := addToSet u (readBy m)\<rparr> else m"
  have idem: "map ?g (map ?g ms) = map ?g ms" for ms
    by (induction ms) auto
  have s: "snd (markAsRead db chatId u) = db\<lparr>chat_messages := map ?g (chat_messages db)\<rparr>"
    by (simp add: markAsRead_def)
  have "markAsRead (snd (markAsRead db chatId u)) chatId u
        = (Success 200 (), snd (markAsRead db chatId u))"
    unfolding s by (simp add: markAsRead_def idem del: map_map)
  then show ?thesis
    unfolding s by (auto simp: markAsRead_def)
qed

text \<open>
  C10 in the example chat: user 3, who is not in the chat, marks all three messages; user 2
  marks the two of user 1; a chat that does not exist is no error.
\<close>

theorem markAsRead_unguarded_idempotent_witness:
  "\<not> list_ex (\<lambda>p. member_user p = 3) (chat_participants chat_ab)
   \<and> fst (markAsRead db_chat 20 3) = Success 200 ()
   \<and> map readBy (chat_messages (snd (markAsRead db_chat 20 3))) = [[3], [3], [3]]
   \<and> map readBy (chat_messages (snd (markAsRead db_chat 20 2))) = [[2], [], [2]]
   \<and> markAsRead (snd (markAsRead db_chat 20 2)) 20 2
        = (Success 200 (), snd (markAsRead db_chat 20 2))
   \<and> fst (markAsRead db_chat 99 3) = Success 200 ()"
proof -
  have "map readBy (chat_messages (snd (markAsRead db_chat 20 3))) = [[3], [3], [3]]"
    "map readBy (chat_messages (snd (markAsRead db_chat 20 2))) = [[2], [], [2]]"
    by (simp_all add: markAsRead_def db_chat_def text_message_def)
  with markAsRead_unguarded_idempotent [of db_chat 20 3]
    markAsRead_unguarded_idempotent [of db_chat 20 2]
    markAsRead_unguarded_idempotent [of db_chat 99 3]
  show ?thesis by (simp add: chat_ab_def)
qed

lemma query_page_valid:
  "0 \<le> skip \<Longrightarrow> 1 \<le> limit \<Longrightarrow>
     query_page xs skip limit = Some (take (nat limit) (drop (nat skip) xs))"
  by (simp add: query_page_def)

lemma newest_first_desc:
  "sorted_wrt (\<lambda>x y. createdAt y \<le> createdAt x) (newest_first ms)"
proof -
  have "sorted (map (\<lambda>m. - int (createdAt m)) (newest_first ms))"
    by (simp add: newest_first_def)
  then show ?thesis by (simp add: sorted_map)
qed

lemma set_newest_first [simp]: "set (newest_first ms) = set ms"
  by (simp add: newest_first_def)

lemma spec_chat_page_sorted: "sorted (map createdAt (spec_chat_page db chatId page limit))"
proof -
  have "sorted_wrt (\<lambda>x y. createdAt y \<le> createdAt x)
          (take (nat limit) (drop (nat ((page - 1) * limit))
            (newest_first (filter (\<lambda>m. chat m = Some chatId) (chat_messages db)))))"
    by (intro sorted_wrt_take sorted_wrt_drop newest_first_desc)
  then show ?thesis
    by (simp add: spec_chat_page_def sorted_map sorted_wrt_rev)
qed

lemma take_newer_than_drop:
  assumes "sorted_wrt R xs" "a \<in> set (take n xs)" "b \<in> set (drop n xs)"
  shows "R a b"
proof -
  have "sorted_wrt R (take n xs @ drop n xs)"
    using assms(1) by simp
  then show ?thesis
    using assms(2,3) unfolding sorted_wrt_append by blast
qed

text \<open>
  Claim C8: for an existing chat, \<^const>\<open>getChatMessages\<close> answers 403 to everyone who is not
  a participant; for a participant, a page from 1 and a limit from 1, it answers 200 with the
  page the specification describes, the state unchanged; the returned messages are messages
  of the chat in ascending order of creation, and on page 1 no message of the chat outside
  the page is newer than one inside.
\<close>

theorem getChatMessages_page:
  assumes "find (\<lambda>c. chat_oid c = chatId) (chats db) = Some c"
  shows "(\<not> list_ex (\<lambda>p. member_user p = u) (chat_participants c) \<longrightarrow>
            getChatMessages db chatId u p l = (Failure 403 ''Access denied'', db))
       \<and> (list_ex (\<lambda>p. member_user p = u) (chat_participants c)
            \<and> 1 \<le> query_int 1 p \<and> 1 \<le> query_int 50 l \<longrightarrow>
            fst (getChatMessages db chatId u p l)
              = Success 200 (spec_chat_page db chatId (query_int 1 p) (query_int 50 l),
                  \<lparr>current = query_int 1 p,
                   total_pages = page_count (length (filter (\<lambda>m. chat m = Some chatId)
                                    (chat_messages db))) (query_int 50 l),
                   count = length (spec_chat_page db chatId (query_int 1 p) (query_int 50 l)),
                   totalItems = length (filter (\<lambda>m. chat m = Some chatId) (chat_messages db))\<rparr>)
          \<and> snd (getChatMessages db chatId u p l) = db
          \<and> sorted (map createdAt (returned_chat_messages (fst (getChatMessages db chatId u p l))))
          \<and> set (returned_chat_messages (fst (getChatMessages db chatId u p l)))
              \<subseteq> {m \<in> set (chat_messages db). chat m = Some chatId}
          \<and> (query_int 1 p = 1 \<longrightarrow>
               (\<forall>m \<in> set (returned_chat_messages (fst (getChatMessages db chatId u p l))).
                \<forall>m' \<in> {m \<in> set (chat_messages db). chat m = Some chatId}
                        - set (returned_chat_messages (fst (getChatMessages db chatId u p l))).
                   createdAt m' \<le> createdAt m)))"
proof (intro conjI impI)
  assume "\<not> list_ex (\<lambda>p. member_user p = u) (chat_participants c)"
  with assms show "getChatMessages db chatId u p l = (Failure 403 ''Access denied'', db)"
    by (simp add: getChatMessages_def Let_def)
next
  let ?P = "query_int 1 p" and ?L = "query_int 50 l"
  let ?found = "filter (\<lambda>m. chat m = Some chatId) (chat_messages db)"
  assume a: "list_ex (\<lambda>p. member_user p = u) (chat_participants c)
            \<and> 1 \<le> query_int 1 p \<and> 1 \<le> query_int 50 l"
  then have sk: "0 \<le> (?P - 1) * ?L" by simp
  have qp: "query_page (newest_first ?found) ((?P - 1) * ?L) ?L
              = Some (take (nat ?L) (drop (nat ((?P - 1) * ?L)) (newest_first ?found)))"
    using a sk by (intro query_page_valid) simp_all
  have g: "getChatMessages db chatId u p l
     = (Success 200 (spec_chat_page db chatId ?P ?L,
                  \<lparr>current = ?P, total_pages = page_count (length ?found) ?L,
                   count = length (spec_chat_page db chatId ?P ?L),
                   totalItems = length ?found\<rparr>), db)"
    using assms a qp by (simp add: getChatMessages_def Let_def spec_chat_page_def)
  show "fst (getChatMessages db chatId u p l)
     = Success 200 (spec_chat_page db chatId ?P ?L,
                  \<lparr>current = ?P, total_pages = page_count (length ?found) ?L,
                   count = length (spec_chat_page db chatId ?P ?L),
                   totalItems = length ?found\<rparr>)"
    using g by simp
  show "snd (getChatMessages db chatId u p l) = db"
    using g by simp
  have r: "returned_chat_messages (fst (getChatMessages db chatId u p l))
             = spec_chat_page db chatId ?P ?L"
    using g by (simp add: returned_chat_messages_def)
  show "sorted (map createdAt (returned_chat_messages (fst (getChatMessages db chatId u p l))))"
    unfolding r by (rule spec_chat_page_sorted)
  have sub: "set (spec_chat_page db chatId ?P ?L) \<subseteq> set (newest_first ?found)"
    unfolding spec_chat_page_def set_rev
    by (meson set_take_subset set_drop_subset subset_trans)
  then show "set (returned_chat_messages (fst (getChatMessages db chatId u p l)))
              \<subseteq> {m \<in> set (chat_messages db). chat m = Some chatId}"
    unfolding r by auto
  show "\<forall>m \<in> set (returned_chat_messages (fst (getChatMessages db chatId u p l))).
          \<forall>m' \<in> {m \<in> set (chat_messages db). chat m = Some chatId}
                  - set (returned_chat_messages (fst (getChatMessages db chatId u p l))).
             createdAt m' \<le> createdAt m"
    if p1: "query_int 1 p = 1"
  proof (intro ballI)
    fix m m'
    assume m: "m \<in> set (returned_chat_messages (fst (getChatMessages db chatId u p l)))"
      and m': "m' \<in> {m \<in> set (chat_messages db). chat m = Some chatId}
                  - set (returned_chat_messages (fst (getChatMessages db chatId u p l)))"
    have pg: "spec_chat_page db chatId ?P ?L = rev (take (nat ?L) (newest_first ?found))"
      using p1 by (simp add: spec_chat_page_def)
    from m have 1: "m \<in> set (take (nat ?L) (newest_first ?found))"
      unfolding r pg by simp
    from m' have "m' \<in> set (newest_first ?found)" "m' \<notin> set (take (nat ?L) (newest_first ?found))"
      unfolding r pg by simp_all
    then have 2: "m' \<in> set (drop (nat ?L) (newest_first ?found))"
      by (metis Un_iff append_take_drop_id set_append)
    from take_newer_than_drop [OF newest_first_desc 1 2]
    show "createdAt m' \<le> createdAt m" .
  qed
qed

text \<open>
  C8 in the example chat: user 3 is refused; user 1 gets the two newest messages, older
  first.
\<close>

theorem getChatMessages_page_witness:
  "find (\<lambda>c. chat_oid c = 20) (chats db_chat) = Some chat_ab
   \<and> \<not> list_ex (\<lambda>p. member_user p = 3) (chat_participants chat_ab)
   \<and> getChatMessages db_chat 20 3 None None = (Failure 403 ''Access denied'', db_chat)
   \<and> list_ex (\<lambda>p. member_user p = 1) (chat_participants chat_ab)
   \<and> 1 \<le> query_int 1 (Some 1) \<and> 1 \<le> query_int 50 (Some 2)
   \<and> map message_oid (returned_chat_messages (fst (getChatMessages db_chat 20 1 (Some 1) (Some 2))))
        = [33, 32]
   \<and> map createdAt (returned_chat_messages (fst (getChatMessages db_chat 20 1 (Some 1) (Some 2))))
        = [200, 300]"
proof -
  have h: "find (\<lambda>c. chat_oid c = 20) (chats db_chat) = Some chat_ab"
    by (simp add: db_chat_def chat_ab_def)
  have m: "\<not> list_ex (\<lambda>p. member_user p = 3) (chat_participants chat_ab)"
    "list_ex (\<lambda>p. member_user p = 1) (chat_participants chat_ab)"
    "1 \<le> query_int 1 (Some 1)" "1 \<le> query_int 50 (Some 2)"
    by (simp_all add: chat_ab_def query_int_def)
  have nf: "newest_first (filter (\<lambda>m. chat m = Some 20) (chat_messages db_chat))
     = [text_message 32 2 ''text'' 300, text_message 33 1 ''question'' 200,
        text_message 31 1 ''text'' 100]"
    by (simp add: newest_first_def db_chat_def text_message_def)
  have pg: "spec_chat_page db_chat 20 1 2
     = [text_message 33 1 ''question'' 200, text_message 32 2 ''text'' 300]"
    by (simp add: spec_chat_page_def nf)
  from getChatMessages_page [OF h, of 3 None None]
    getChatMessages_page [OF h, of 1 "Some 1" "Some 2"] h m pg
  show ?thesis
    by (simp add: returned_chat_messages_def query_int_def text_message_def)
qed

section \<open>The rating service\<close>

lemma set_sort_ratings [simp]: "set (sort_ratings s rs) = set rs"
  by (simp add: sort_ratings_def)

lemma length_sort_ratings [simp]: "length (sort_ratings s rs) = length rs"
  by (simp add: sort_ratings_def)

lemma query_page_all:
  "1 \<le> limit \<Longrightarrow> int (length xs) \<le> limit \<Longrightarrow> query_page xs 0 limit = Some xs"
  by (simp add: query_page_def)

lemma getRatings_first_page:
  assumes "1 \<le> L" "int (length (ratings db)) \<le> L"
  shows "set (returned_ratings (fst (getRatings db tt tid (Some 1) (Some L) srt)))
           = set (ratings_query db tt tid)"
proof -
  have "length (ratings_query db tt tid) \<le> length (ratings db)"
    by (simp add: ratings_query_def)
  with assms(2) have "int (length (sort_ratings s (ratings_query db tt tid))) \<le> L" for s
    by simp
  from query_page_all [OF assms(1) this] show ?thesis
    by (simp add: getRatings_def Let_def query_int_def returned_ratings_def)
qed

text \<open>
  Claim C6: \<^const>\<open>reportRating\<close> on a stored rating answers 200 and changes of it only the
  report count, which grows by one, and the hidden flag; the rating is hidden when the new
  count is 5 or more; when the new count is 4 or less and the rating was not hidden, it is
  not hidden, it matches the query of \<^const>\<open>getRatings\<close> for its target, and the first page
  of a limit that covers all ratings returns it.
\<close>

theorem reportRating_auto_hide:
  assumes "find (\<lambda>r. rating_oid r = rid) (ratings db) = Some r"
  shows "\<exists>r'. fst (reportRating db rid) = Success 200 ()
          \<and> find (\<lambda>r. rating_oid r = rid) (ratings (snd (reportRating db rid))) = Some r'
          \<and> r' = r\<lparr>reportCount := reportCount r + 1, isHidden := isHidden r'\<rparr>
          \<and> (5 \<le> reportCount r' \<longrightarrow> isHidden r')
          \<and> (reportCount r' \<le> 4 \<and> \<not> isHidden r \<longrightarrow>
                \<not> isHidden r'
              \<and> r' \<in> set (ratings_query (snd (reportRating db rid)) (targetType r) (targetId r))
              \<and> (1 \<le> L \<and> int (length (ratings db)) \<le> L \<longrightarrow>
                   r' \<in> set (returned_ratings (fst (getRatings (snd (reportRating db rid))
                                (targetType r) (targetId r) (Some 1) (Some L) srt)))))"
proof -
  let ?f = "\<lambda>x. let x1 = x\<lparr>reportCount := reportCount x + 1\<rparr>
                 in if reportCount x1 \<ge> 5 then x1\<lparr>isHidden := True\<rparr> else x1"
  let ?db' = "snd (reportRating db rid)"
  have id: "rating_oid r = rid"
    using find_Some_P [OF assms] .
  have s: "reportRating db rid
     = (Success 200 (), db\<lparr>ratings := update_first (\<lambda>x. rating_oid x = rid) ?f (ratings db)\<rparr>)"
    using assms by (simp add: reportRating_def)
  have f: "find (\<lambda>r. rating_oid r = rid) (ratings ?db') = Some (?f r)"
    unfolding s using assms id by (simp add: find_update_first Let_def)
  have len: "length (ratings ?db') = length (ratings db)"
    unfolding s by simp
  have q: "?f r \<in> set (ratings_query ?db' (targetType r) (targetId r))"
    if "reportCount r + 1 \<le> 4" "\<not> isHidden r"
    using find_Some_set [OF f] that by (simp add: ratings_query_def Let_def)
  have g: "?f r \<in> set (returned_ratings (fst (getRatings ?db'
                                (targetType r) (targetId r) (Some 1) (Some L) srt)))"
    if "reportCount r + 1 \<le> 4" "\<not> isHidden r" "1 \<le> L" "int (length (ratings db)) \<le> L"
    using q that getRatings_first_page [of L ?db' "targetType r" "targetId r" srt] len
    by simp
  show ?thesis
    using s f q g by (intro exI [of _ "?f r"]) (auto simp: Let_def)
qed

text \<open>
  C6 at a rating with 3 and with 4 reports: the fourth report leaves it visible, the fifth
  hides it.
\<close>

theorem reportRating_auto_hide_witness:
  "find (\<lambda>r. rating_oid r = 40) (ratings (db_rated 3)) = Some (rating_of_bob 3)
   \<and> find (\<lambda>r. rating_oid r = 40) (ratings (db_rated 4)) = Some (rating_of_bob 4)
   \<and> \<not> isHidden (rating_of_bob 3) \<and> \<not> isHidden (rating_of_bob 4)
   \<and> map (\<lambda>r. (reportCount r, isHidden r)) (ratings (snd (reportRating (db_rated 3) 40)))
        = [(4, False)]
   \<and> map (\<lambda>r. (reportCount r, isHidden r))
        (returned_ratings (fst (getRatings (snd (reportRating (db_rated 3) 40))
           ''guide'' 2 (Some 1) (Some 10) None))) = [(4, False)]
   \<and> map (\<lambda>r. (reportCount r, isHidden r)) (ratings (snd (reportRating (db_rated 4) 40)))
        = [(5, True)]
   \<and> returned_ratings (fst (getRatings (snd (reportRating (db_rated 4) 40))
           ''guide'' 2 (Some 1) (Some 10) None)) = []"
proof -
  have h: "find (\<lambda>r. rating_oid r = 40) (ratings (db_rated 3)) = Some (rating_of_bob 3)"
    "find (\<lambda>r. rating_oid r = 40) (ratings (db_rated 4)) = Some (rating_of_bob 4)"
    "\<not> isHidden (rating_of_bob 3)" "\<not> isHidden (rating_of_bob 4)"
    by (simp_all add: db_rated_def rating_of_bob_def)
  have r3: "ratings (snd (reportRating (db_rated 3) 40))
              = [(rating_of_bob 3)\<lparr>reportCount := 4\<rparr>]"
    and r4: "ratings (snd (reportRating (db_rated 4) 40))
              = [(rating_of_bob 4)\<lparr>reportCount := 5, isHidden := True\<rparr>]"
    by (simp_all add: reportRating_def db_rated_def rating_of_bob_def Let_def)
  have g3: "returned_ratings (fst (getRatings (snd (reportRating (db_rated 3) 40))
           ''guide'' 2 (Some 1) (Some 10) None)) = [(rating_of_bob 3)\<lparr>reportCount := 4\<rparr>]"
    and g4: "returned_ratings (fst (getRatings (snd (reportRating (db_rated 4) 40))
           ''guide'' 2 (Some 1) (Some 10) None)) = []"
    by (simp_all add: getRatings_def ratings_query_def r3 r4 sort_ratings_def query_page_def
        query_int_def returned_ratings_def rating_of_bob_def Let_def)
  from reportRating_auto_hide [OF h(1), of 10 None] reportRating_auto_hide [OF h(2), of 10 None]
    h r3 r4 g3 g4
  show ?thesis by (simp add: rating_of_bob_def)
qed

lemma update_first_as_map:
  "distinct (map h xs) \<Longrightarrow> x \<in> set xs \<Longrightarrow>
     update_first (\<lambda>r. h r = h x) f xs = map (\<lambda>r. if r = x then f r else r) xs"
proof (induction xs)
  case Nil
  then show ?case by simp
next
  case (Cons y ys)
  show ?case
  proof (cases "h y = h x")
    case True
    with Cons.prems have "y = x" by (auto simp: image_iff)
    with Cons.prems have "x \<notin> set ys" by auto
    then have "map (\<lambda>r. if r = x then f r else r) ys = ys"
      by (induction ys) auto
    with True \<open>y = x\<close> show ?thesis by simp
  next
    case False
    with Cons show ?thesis by auto
  qed
qed

lemma filter_key_single:
  "distinct (map k xs) \<Longrightarrow> x \<in> set xs \<Longrightarrow> filter (\<lambda>r. k r = k x) xs = [x]"
proof (induction xs)
  case Nil
  then show ?case by simp
next
  case (Cons y ys)
  show ?case
  proof (cases "y = x")
    case True
    with Cons.prems have "\<forall>r \<in> set ys. k r \<noteq> k x" by (auto simp: image_iff)
    then have "filter (\<lambda>r. k r = k x) ys = []" by (simp add: filter_empty_conv)
    with True show ?thesis by simp
  next
    case False
    with Cons show ?thesis by (auto simp: image_iff)
  qed
qed

lemma find_role_update_first:
  assumes "\<And>u. user_oid (f u) = user_oid u" "\<And>u. role (f u) = role u"
  shows "map_option role (find (\<lambda>u. user_oid u = t) (update_first P f us))
           = map_option role (find (\<lambda>u. user_oid u = t) us)"
  by (induction us) (auto simp: assms)

lemma target_check_alt:
  "target_check db tt tid =
     (if tt = ''guide''
      then (case map_option role (find (\<lambda>u. user_oid u = tid) (users db)) of
              None \<Rightarrow> Some (404, ''Guide not found'')
            | Some ro \<Rightarrow> if ro \<noteq> ''guide'' then Some (404, ''Guide not found'') else None)
      else if tt = ''trip''
      then (case findById (trips db) tid of
              None \<Rightarrow> Some (404, ''Trip not found'')
            | Some target \<Rightarrow> None)
      else Some (400, ''Invalid target type''))"
  by (simp add: target_check_def split: option.splits)

lemma ratings_updateGuideRating [simp]: "ratings (updateGuideRating g db) = ratings db"
  by (simp add: updateGuideRating_def Let_def)

lemma trips_updateGuideRating [simp]: "trips (updateGuideRating g db) = trips db"
  by (simp add: updateGuideRating_def Let_def)

lemma target_check_updateGuideRating [simp]:
  "target_check (updateGuideRating g db) tt tid = target_check db tt tid"
proof -
  have "map_option role (find (\<lambda>u. user_oid u = tid) (users (updateGuideRating g db)))
          = map_option role (find (\<lambda>u. user_oid u = tid) (users db))"
    by (simp add: updateGuideRating_def Let_def find_role_update_first)
  then show ?thesis
    by (simp only: target_check_alt trips_updateGuideRating)
qed

lemma target_check_ratings_update [simp]:
  "target_check (db\<lparr>ratings := rs\<rparr>) tt tid = target_check db tt tid"
  by (simp add: target_check_def)

text \<open>What a successful call has done.\<close>

lemma createRating_SuccessD:
  assumes "createRating db rv tt tid sc rw uuid new_oid now = (Success code x, db')"
  shows "target_check db tt tid = None \<and> validate_rating sc rw
       \<and> target_check db' tt tid = None
       \<and> ((\<exists>e. find (\<lambda>r. reviewer r = rv \<and> targetType r = tt \<and> targetId r = tid) (ratings db)
                  = Some e
               \<and> x = e\<lparr>rating := the sc, review := rw\<rparr>
               \<and> ratings db' = update_first (\<lambda>r. rating_oid r = rating_oid e)
                                  (\<lambda>r. r\<lparr>rating := the sc, review := rw\<rparr>) (ratings db))
          \<or> (find (\<lambda>r. reviewer r = rv \<and> targetType r = tt \<and> targetId r = tid) (ratings db)
                  = None
               \<and> rating_key x = (rv, tt, tid) \<and> \<not> duplicate_key x (ratings db)
               \<and> ratings db' = ratings db @ [x]))"
  using assms
  by (auto simp: createRating_def Let_def rating_key_def
      split: option.splits if_splits prod.splits)

lemma find_map_pres:
  "(\<And>x. P (g x) = P x) \<Longrightarrow> find P (map g xs) = map_option g (find P xs)"
  by (induction xs) auto

lemma filter_map_pres:
  "(\<And>x. P (g x) = P x) \<Longrightarrow> filter P (map g xs) = map g (filter P xs)"
  by (induction xs) auto

lemma map_if_absent: "x \<notin> set xs \<Longrightarrow> map (\<lambda>r. if r = x then f r else r) xs = xs"
  by (induction xs) auto

lemma rating_key_iff:
  "(rating_key r = (rv, tt, tid)) = (reviewer r = rv \<and> targetType r = tt \<and> targetId r = tid)"
  by (auto simp: rating_key_def)

lemma unique_indexes_snoc:
  "unique_indexes rs \<Longrightarrow> \<not> duplicate_key x rs \<Longrightarrow> unique_indexes (rs @ [x])"
  by (auto simp: unique_indexes_def duplicate_key_def)

text \<open>Saving a changed score and review of a stored rating \<open>e\<close>.\<close>

lemma find_key_single:
  "distinct (map k xs) \<Longrightarrow> x \<in> set xs \<Longrightarrow> find (\<lambda>r. k r = k x) xs = Some x"
  by (induction xs) (auto simp: image_iff)

lemma save_rating:
  fixes sc :: rat and rw :: "jsstring option"
  assumes u: "unique_indexes rs" and e: "e \<in> set rs"
  defines "rs' \<equiv> update_first (\<lambda>r. rating_oid r = rating_oid e)
                    (\<lambda>r. r\<lparr>rating := sc, review := rw\<rparr>) rs"
  shows "unique_indexes rs'"
    and "filter (\<lambda>r. rating_key r = rating_key e) rs' = [e\<lparr>rating := sc, review := rw\<rparr>]"
    and "filter (\<lambda>r. rating_key r \<noteq> rating_key e) rs'
           = filter (\<lambda>r. rating_key r \<noteq> rating_key e) rs"
    and "find (\<lambda>r. rating_key r = rating_key e) rs' = Some (e\<lparr>rating := sc, review := rw\<rparr>)"
    and "length rs' = length rs"
proof -
  let ?g = "\<lambda>r. if r = e then r\<lparr>rating := sc, review := rw\<rparr> else r"
  have d: "distinct (map rating_oid rs)" "distinct (map rating_key rs)"
    using u by (simp_all add: unique_indexes_def)
  have m: "rs' = map ?g rs"
    unfolding rs'_def using update_first_as_map [OF d(1) e] .
  have k: "rating_key (?g r) = rating_key r" for r
    by (simp add: rating_key_def)
  have c: "rating_oid \<circ> ?g = rating_oid" "rating_id \<circ> ?g = rating_id"
    "rating_key \<circ> ?g = rating_key"
    by (auto simp: fun_eq_iff rating_key_def)
  from u show "unique_indexes rs'"
    unfolding m unique_indexes_def map_map c .
  have one: "filter (\<lambda>r. rating_key r = rating_key e) rs = [e]"
    using filter_key_single [OF d(2) e] .
  show "filter (\<lambda>r. rating_key r = rating_key e) rs' = [e\<lparr>rating := sc, review := rw\<rparr>]"
    unfolding m using filter_map_pres [of "\<lambda>r. rating_key r = rating_key e" ?g rs] k one
    by simp
  have "e \<notin> set (filter (\<lambda>r. rating_key r \<noteq> rating_key e) rs)"
    by simp
  then show "filter (\<lambda>r. rating_key r \<noteq> rating_key e) rs'
           = filter (\<lambda>r. rating_key r \<noteq> rating_key e) rs"
    unfolding m using filter_map_pres [of "\<lambda>r. rating_key r \<noteq> rating_key e" ?g rs] k
    by (simp add: map_if_absent)
  have "find (\<lambda>r. rating_key r = rating_key e) rs = Some e"
    using find_key_single [OF d(2) e] .
  then show "find (\<lambda>r. rating_key r = rating_key e) rs' = Some (e\<lparr>rating := sc, review := rw\<rparr>)"
    unfolding m using find_map_pres [of "\<lambda>r. rating_key r = rating_key e" ?g rs] k
    by simp
  show "length rs' = length rs"
    unfolding m by simp
qed

lemma createRating_stored:
  assumes u: "unique_indexes (ratings db)"
    and c: "createRating db rv tt tid sc rw uuid new_oid now = (Success code x, db')"
  shows "unique_indexes (ratings db')" and "x \<in> set (ratings db')"
    and "rating_key x = (rv, tt, tid)" and "target_check db' tt tid = None"
proof -
  let ?K = "\<lambda>r. reviewer r = rv \<and> targetType r = tt \<and> targetId r = tid"
  from createRating_SuccessD [OF c] show "target_check db' tt tid = None" by simp
  have "unique_indexes (ratings db') \<and> x \<in> set (ratings db') \<and> rating_key x = (rv, tt, tid)"
    using createRating_SuccessD [OF c, THEN conjunct2, THEN conjunct2, THEN conjunct2]
  proof (elim disjE exE conjE)
    fix e
    assume old: "find ?K (ratings db) = Some e" "x = e\<lparr>rating := the sc, review := rw\<rparr>"
      "ratings db' = update_first (\<lambda>r. rating_oid r = rating_oid e)
                                  (\<lambda>r. r\<lparr>rating := the sc, review := rw\<rparr>) (ratings db)"
    have e: "e \<in> set (ratings db)" and k: "rating_key e = (rv, tt, tid)"
      using find_Some_set [OF old(1)] find_Some_P [OF old(1)] by (simp_all add: rating_key_def)
    from save_rating(1,4) [OF u e, where sc = "the sc" and rw = rw] old(2,3) k
    show ?thesis
      by (auto dest: find_Some_set simp: rating_key_def)
  next
    assume new: "find ?K (ratings db) = None" "rating_key x = (rv, tt, tid)"
      "\<not> duplicate_key x (ratings db)" "ratings db' = ratings db @ [x]"
    with u show ?thesis
      by (simp add: unique_indexes_snoc)
  qed
  then show "unique_indexes (ratings db')" "x \<in> set (ratings db')"
    "rating_key x = (rv, tt, tid)"
    by simp_all
qed

text \<open>
  Claim C5: in a collection that obeys its unique indexes, after a successful
  \<^const>\<open>createRating\<close> the reviewer has exactly one rating of the target, the one of the
  answer; a second call by the same reviewer for the same target leaves exactly one, whatever
  its score and review are; and when these pass the schema's validators, the second call
  answers 200 with the stored rating changed in score and review only, no rating is added,
  and the other ratings are as before.
\<close>

theorem createRating_twice_one_record:
  assumes "unique_indexes (ratings db)"
    and "createRating db rv tt tid sc1 rw1 uuid1 oid1 now1 = (Success code1 x1, db1)"
  shows "filter (\<lambda>r. rating_key r = (rv, tt, tid)) (ratings db1) = [x1]
       \<and> length (filter (\<lambda>r. rating_key r = (rv, tt, tid))
            (ratings (snd (createRating db1 rv tt tid sc2 rw2 uuid2 oid2 now2)))) = 1
       \<and> (validate_rating sc2 rw2 \<longrightarrow>
            (\<exists>db2. createRating db1 rv tt tid sc2 rw2 uuid2 oid2 now2
                      = (Success 200 (x1\<lparr>rating := the sc2, review := rw2\<rparr>), db2)
                  \<and> filter (\<lambda>r. rating_key r = (rv, tt, tid)) (ratings db2)
                      = [x1\<lparr>rating := the sc2, review := rw2\<rparr>]
                  \<and> filter (\<lambda>r. rating_key r \<noteq> (rv, tt, tid)) (ratings db2)
                      = filter (\<lambda>r. rating_key r \<noteq> (rv, tt, tid)) (ratings db1)
                  \<and> length (ratings db2) = length (ratings db1)
                  \<and> unique_indexes (ratings db2)
                  \<and> db2 = db1\<lparr>ratings := ratings db2\<rparr>))"
proof -
  let ?K = "\<lambda>r. reviewer r = rv \<and> targetType r = tt \<and> targetId r = tid"
  let ?ch = "\<lambda>r. r\<lparr>rating := the sc2, review := rw2\<rparr>"
  let ?rs2 = "update_first (\<lambda>r. rating_oid r = rating_oid x1) ?ch (ratings db1)"
  note st = createRating_stored [OF assms]
  have d: "distinct (map rating_key (ratings db1))"
    using st(1) by (simp add: unique_indexes_def)
  have one: "filter (\<lambda>r. rating_key r = (rv, tt, tid)) (ratings db1) = [x1]"
    using filter_key_single [OF d st(2)] st(3) by simp
  have "find (\<lambda>r. rating_key r = (rv, tt, tid)) (ratings db1) = Some x1"
    using find_key_single [OF d st(2)] st(3) by simp
  then have f: "find ?K (ratings db1) = Some x1"
    by (simp add: rating_key_iff)
  have bad: "createRating db1 rv tt tid sc2 rw2 uuid2 oid2 now2
               = (Failure 500 ''Server error while creating rating'', db1)"
    if "\<not> validate_rating sc2 rw2"
    using that f st(4) by (simp add: createRating_def)
  have good: "createRating db1 rv tt tid sc2 rw2 uuid2 oid2 now2
               = (Success 200 (?ch x1), db1\<lparr>ratings := ?rs2\<rparr>)"
    if "validate_rating sc2 rw2"
    using that f st(4) by (simp add: createRating_def Let_def)
  note sv = save_rating [OF st(1,2), where sc = "the sc2" and rw = rw2, unfolded st(3)]
  have "length (filter (\<lambda>r. rating_key r = (rv, tt, tid))
            (ratings (snd (createRating db1 rv tt tid sc2 rw2 uuid2 oid2 now2)))) = 1"
    using bad good one sv(2) by (cases "validate_rating sc2 rw2") simp_all
  moreover have "\<exists>db2. createRating db1 rv tt tid sc2 rw2 uuid2 oid2 now2
                      = (Success 200 (?ch x1), db2)
                  \<and> filter (\<lambda>r. rating_key r = (rv, tt, tid)) (ratings db2) = [?ch x1]
                  \<and> filter (\<lambda>r. rating_key r \<noteq> (rv, tt, tid)) (ratings db2)
                      = filter (\<lambda>r. rating_key r \<noteq> (rv, tt, tid)) (ratings db1)
                  \<and> length (ratings db2) = length (ratings db1)
                  \<and> unique_indexes (ratings db2)
                  \<and> db2 = db1\<lparr>ratings := ratings db2\<rparr>"
    if "validate_rating sc2 rw2"
    using good [OF that] sv by (intro exI [of _ "db1\<lparr>ratings := ?rs2\<rparr>"]) simp
  ultimately show ?thesis using one by blast
qed

text \<open>
  C5 for user 1 rating the guide 2 with 4 and then with 5 and a review.
\<close>

theorem createRating_twice_one_record_witness:
  "unique_indexes (ratings db_users)
   \<and> fst (createRating db_users 1 ''guide'' 2 (Some 4) None ''r-1'' 40 100)
        = Success 201 (rating_of_bob 0)
   \<and> validate_rating (Some 5) (Some (utf16 ''great''))
   \<and> fst (createRating (snd (createRating db_users 1 ''guide'' 2 (Some 4) None ''r-1'' 40 100))
             1 ''guide'' 2 (Some 5) (Some (utf16 ''great'')) ''r-2'' 41 200)
        = Success 200 ((rating_of_bob 0)\<lparr>rating := 5, review := Some (utf16 ''great'')\<rparr>)
   \<and> filter (\<lambda>r. rating_key r = (1, ''guide'', 2))
        (ratings (snd (createRating
           (snd (createRating db_users 1 ''guide'' 2 (Some 4) None ''r-1'' 40 100))
             1 ''guide'' 2 (Some 5) (Some (utf16 ''great'')) ''r-2'' 41 200)))
        = [(rating_of_bob 0)\<lparr>rating := 5, review := Some (utf16 ''great'')\<rparr>]
   \<and> length (ratings (snd (createRating
           (snd (createRating db_users 1 ''guide'' 2 (Some 4) None ''r-1'' 40 100))
             1 ''guide'' 2 (Some 5) (Some (utf16 ''great'')) ''r-2'' 41 200))) = 1"
proof -
  let ?c1 = "createRating db_users 1 ''guide'' 2 (Some 4) None ''r-1'' 40 100"
  have u: "unique_indexes (ratings db_users)"
    by (simp add: db_users_def db0_def unique_indexes_def)
  have tc: "target_check db_users ''guide'' 2 = None"
    by (simp add: target_check_def db_users_def ann_def bob_def)
  have f1: "fst ?c1 = Success 201 (rating_of_bob 0)"
    and r1: "ratings (snd ?c1) = [rating_of_bob 0]"
  proof -
    have e: "ratings db_users = []"
      by (simp add: db_users_def db0_def)
    show "fst ?c1 = Success 201 (rating_of_bob 0)" "ratings (snd ?c1) = [rating_of_bob 0]"
      by (simp_all add: createRating_def tc e validate_rating_def duplicate_key_def
          rating_of_bob_def Let_def)
  qed
  have c1: "?c1 = (Success 201 (rating_of_bob 0), snd ?c1)"
    using f1 by (simp add: prod_eq_iff)
  have v: "validate_rating (Some 5) (Some (utf16 ''great''))"
    by (simp add: validate_rating_def utf16_def)
  from createRating_twice_one_record [OF u c1, of "Some 5" "Some (utf16 ''great'')" "''r-2''" 41 200]
    u f1 r1 v
  show ?thesis by auto
qed

end
